theory Spec2Isabelle
  imports Main "HOL-Library.Word"
begin

unbundle bit_operations_syntax

section \<open>Go library functions used by the miner\<close>

type_synonym byte = "8 word"
type_synonym uint8 = "8 word"
type_synonym uint32 = "32 word"
type_synonym int64 = "64 word"

subsection \<open>crypto/md5 and encoding/hex\<close>

text \<open>
  The miner hashes with \<^verbatim>\<open>md5.New()\<close>, \<^verbatim>\<open>h.Write\<close>, \<^verbatim>\<open>h.Sum(nil)\<close> and
  \<^verbatim>\<open>hex.EncodeToString\<close>. MD5 is written out after RFC 1321 on 32-bit words, so that
  block hashes can be evaluated on concrete blocks.
\<close>

definition md5_s :: "nat list" where
  "md5_s = [7,12,17,22,7,12,17,22,7,12,17,22,7,12,17,22,
            5,9,14,20,5,9,14,20,5,9,14,20,5,9,14,20,
            4,11,16,23,4,11,16,23,4,11,16,23,4,11,16,23,
            6,10,15,21,6,10,15,21,6,10,15,21,6,10,15,21]"

definition md5_K :: "uint32 list" where
  "md5_K = [0xd76aa478, 0xe8c7b756, 0x242070db, 0xc1bdceee,
            0xf57c0faf, 0x4787c62a, 0xa8304613, 0xfd469501,
            0x698098d8, 0x8b44f7af, 0xffff5bb1, 0x895cd7be,
            0x6b901122, 0xfd987193, 0xa679438e, 0x49b40821,
            0xf61e2562, 0xc040b340, 0x265e5a51, 0xe9b6c7aa,
            0xd62f105d, 0x02441453, 0xd8a1e681, 0xe7d3fbc8,
            0x21e1cde6, 0xc33707d6, 0xf4d50d87, 0x455a14ed,
            0xa9e3e905, 0xfcefa3f8, 0x676f02d9, 0x8d2a4c8a,
            0xfffa3942, 0x8771f681, 0x6d9d6122, 0xfde5380c,
            0xa4beea44, 0x4bdecfa9, 0xf6bb4b60, 0xbebfbc70,
            0x289b7ec6, 0xeaa127fa, 0xd4ef3085, 0x04881d05,
            0xd9d4d039, 0xe6db99e5, 0x1fa27cf8, 0xc4ac5665,
            0xf4292244, 0x432aff97, 0xab9423a7, 0xfc93a039,
            0x655b59c3, 0x8f0ccc92, 0xffeff47d, 0x85845dd1,
            0x6fa87e4f, 0xfe2ce6e0, 0xa3014314, 0x4e0811a1,
            0xf7537e82, 0xbd3af235, 0x2ad7d2bb, 0xeb86d391]"

definition le_bytes :: "nat \<Rightarrow> 'a::len word \<Rightarrow> byte list" where
  "le_bytes k w = map (\<lambda>i. ucast (drop_bit (8 * i) w)) [0..<k]"

definition md5_pad :: "byte list \<Rightarrow> byte list" where
  "md5_pad msg = msg @ [0x80] @ replicate ((55 + 64 - length msg mod 64) mod 64) 0
                 @ le_bytes 8 (of_nat (length msg) * 8 :: 64 word)"

definition le_word :: "byte list \<Rightarrow> uint32" where
  "le_word bs = foldr (\<lambda>b acc. ucast b OR push_bit 8 acc) (take 4 bs) 0"

definition chunk_words :: "byte list \<Rightarrow> uint32 list" where
  "chunk_words bs = map (\<lambda>i. le_word (drop (4 * i) bs)) [0..<16]"

definition md5_round :: "uint32 list \<Rightarrow> nat \<Rightarrow> uint32 \<times> uint32 \<times> uint32 \<times> uint32
                          \<Rightarrow> uint32 \<times> uint32 \<times> uint32 \<times> uint32" where
  "md5_round M i st = (case st of (A, B, C, D) \<Rightarrow>
     let (F, g) = (if i < 16 then ((B AND C) OR (NOT B AND D), i)
                   else if i < 32 then ((D AND B) OR (NOT D AND C), (5 * i + 1) mod 16)
                   else if i < 48 then (B XOR C XOR D, (3 * i + 5) mod 16)
                   else (C XOR (B OR NOT D), (7 * i) mod 16));
         F' = F + A + md5_K ! i + M ! g
     in (D, B + word_rotl (md5_s ! i) F', B, C))"

definition md5_block :: "uint32 \<times> uint32 \<times> uint32 \<times> uint32 \<Rightarrow> byte list
                          \<Rightarrow> uint32 \<times> uint32 \<times> uint32 \<times> uint32" where
  "md5_block h bs = (case h of (a0, b0, c0, d0) \<Rightarrow>
     case foldl (\<lambda>st i. md5_round (chunk_words bs) i st) h [0..<64] of (A, B, C, D) \<Rightarrow>
       (a0 + A, b0 + B, c0 + C, d0 + D))"

fun md5_blocks :: "nat \<Rightarrow> uint32 \<times> uint32 \<times> uint32 \<times> uint32 \<Rightarrow> byte list
                          \<Rightarrow> uint32 \<times> uint32 \<times> uint32 \<times> uint32" where
  "md5_blocks 0 h bs = h"
| "md5_blocks (Suc n) h bs = md5_blocks n (md5_block h (take 64 bs)) (drop 64 bs)"

definition md5_sum :: "byte list \<Rightarrow> byte list" where
  "md5_sum msg = (let p = md5_pad msg in
     case md5_blocks (length p div 64) (0x67452301, 0xefcdab89, 0x98badcfe, 0x10325476) p
     of (a, b, c, d) \<Rightarrow> concat (map (le_bytes 4) [a, b, c, d]))"

definition hexdigit :: "byte \<Rightarrow> char" where
  "hexdigit n = ''0123456789abcdef'' ! unat n"

definition EncodeToString :: "byte list \<Rightarrow> string" where
  "EncodeToString bs = concat (map (\<lambda>b. [hexdigit (drop_bit 4 b), hexdigit (b AND 0x0f)]) bs)"

text \<open>\<^verbatim>\<open>[]byte(s)\<close>: a Go string is its bytes.\<close>

definition bytes_of :: "string \<Rightarrow> byte list" where
  "bytes_of s = map of_char s"

subsection \<open>strconv and strings\<close>

text \<open>Decimal digits of a non-negative integer, most significant first.\<close>

function decimal :: "int \<Rightarrow> string" where
  "decimal n = (if n < 10 then [char_of (48 + n)]
                else decimal (n div 10) @ [char_of (48 + n mod 10)])"
  by pat_completeness auto
termination
  by (relation "measure nat") auto

declare decimal.simps [simp del]

text \<open>\<^verbatim>\<open>strconv.FormatInt(j, 10)\<close> on an \<^verbatim>\<open>int64\<close>.\<close>

definition FormatInt :: "int64 \<Rightarrow> string" where
  "FormatInt j = (if sint j < 0 then CHR ''-'' # decimal (- sint j) else decimal (sint j))"

text \<open>\<^verbatim>\<open>strconv.FormatUint(uint64(n), 10)\<close> on a \<^verbatim>\<open>uint32\<close>.\<close>

definition FormatUint :: "uint32 \<Rightarrow> string" where
  "FormatUint n = decimal (uint n)"

text \<open>
  \<^verbatim>\<open>strconv.ParseUint(s, 10, 32)\<close>, its value only (the callers drop the error): 0 on a
  syntax error (empty string, a character that is not a decimal digit), the largest
  \<^verbatim>\<open>uint32\<close> on a range error. The characters are read left to right and the first
  error met decides.
\<close>

definition is_digit :: "char \<Rightarrow> bool" where
  "is_digit c = (48 \<le> (of_char c :: nat) \<and> (of_char c :: nat) \<le> 57)"

fun ParseUint_loop :: "string \<Rightarrow> int \<Rightarrow> int" where
  "ParseUint_loop [] n = n"
| "ParseUint_loop (c # cs) n =
     (if \<not> is_digit c then 0
      else let n1 = n * 10 + (of_char c - 48) in
        if n1 > 0xFFFFFFFF then 0xFFFFFFFF else ParseUint_loop cs n1)"

definition ParseUint :: "string \<Rightarrow> int" where
  "ParseUint s = (if s = [] then 0 else ParseUint_loop s 0)"

text \<open>\<^verbatim>\<open>strings.Repeat("0", n)\<close> and \<^verbatim>\<open>strings.HasSuffix\<close>.\<close>

definition Repeat :: "char \<Rightarrow> nat \<Rightarrow> string" where
  "Repeat c n = replicate n c"

definition HasSuffix :: "string \<Rightarrow> string \<Rightarrow> bool" where
  "HasSuffix s suffix =
     (length s \<ge> length suffix \<and> drop (length s - length suffix) s = suffix)"

text \<open>
  The conversion \<^verbatim>\<open>string(i)\<close> of an \<^verbatim>\<open>int\<close>: the UTF-8 encoding of the code point
  \<^verbatim>\<open>i\<close>, and of U+FFFD when \<^verbatim>\<open>i\<close> is not a valid code point.
\<close>

definition rune_string :: "int \<Rightarrow> string" where
  "rune_string i =
     (let r = (if i < 0 \<or> i > 0x10FFFF \<or> (0xD800 \<le> i \<and> i \<le> 0xDFFF) then 0xFFFD else i) in
      if r < 0x80 then [char_of r]
      else if r < 0x800 then [char_of (0xC0 + r div 64), char_of (0x80 + r mod 64)]
      else if r < 0x10000 then
        [char_of (0xE0 + r div 4096), char_of (0x80 + (r div 64) mod 64),
         char_of (0x80 + r mod 64)]
      else
        [char_of (0xF0 + r div 262144), char_of (0x80 + (r div 4096) mod 64),
         char_of (0x80 + (r div 64) mod 64), char_of (0x80 + r mod 64)])"

section \<open>The miner's data (ink-miner.go)\<close>

record Operation =
  AppShape :: string
  OpSig :: string
  PubKeyArtNode :: string

record InkAccount =
  inkMined :: uint32
  inkSpent :: uint32
  inkRemain :: uint32

text \<open>
  A Go map is a reference: copying a \<^verbatim>\<open>Block\<close> copies the reference, not the entries.
  A block therefore holds, for each of its three maps, either \<^verbatim>\<open>nil\<close> (\<open>None\<close>) or
  the address of a map object kept in the miner's store.
\<close>

type_synonym mapref = "nat option"

record Block =
  PrevHash :: string
  Nonce :: uint32
  Ops :: "Operation list"
  NoOpBlock :: bool
  PubKeyMiner :: string
  Index :: int
  MinerInks :: mapref
  CanvasInks :: mapref
  CanvasOperations :: mapref

record MinerNetSettings =
  GenesisBlockHash :: string
  MinNumMinerConnections :: uint8
  InkPerOpBlock :: uint32
  InkPerNoOpBlock :: uint32
  HeartBeat :: uint32
  PoWDifficultyOpBlock :: uint8
  PoWDifficultyNoOpBlock :: uint8
  CanvasXMax :: uint32
  CanvasYMax :: uint32

section \<open>Block hashing\<close>

definition computeNonceSecretHash :: "string \<Rightarrow> string \<Rightarrow> string" where
  "computeNonceSecretHash nonce secret = EncodeToString (md5_sum (bytes_of (nonce @ secret)))"

definition hasNZeros :: "string \<Rightarrow> uint8 \<Rightarrow> bool" where
  "hasNZeros hash n = HasSuffix hash (Repeat CHR ''0'' (unat n))"

definition convertOpToString :: "Operation list \<Rightarrow> string" where
  "convertOpToString ops =
     foldl (\<lambda>opsString element. opsString @ AppShape element @ OpSig element @ PubKeyArtNode element)
       [] ops"

definition blkToString :: "Block \<Rightarrow> string" where
  "blkToString b = PrevHash b @ convertOpToString (Ops b) @ PubKeyMiner b @ rune_string (Index b)"

text \<open>
  The search loop of \<^verbatim>\<open>calculateHash\<close>: \<^verbatim>\<open>j\<close> is an \<^verbatim>\<open>int64\<close> that starts at 0 and
  wraps around; the loop has no other exit than a hash with the required zeros, so it
  need not return (\<open>None\<close>).
\<close>

partial_function (option) calculateHash_loop :: "string \<Rightarrow> uint8 \<Rightarrow> int64 \<Rightarrow> (string \<times> string) option"
  where
  "calculateHash_loop blockString powDifficulty j =
     (if hasNZeros (computeNonceSecretHash blockString (FormatInt j)) powDifficulty
      then Some (computeNonceSecretHash blockString (FormatInt j), FormatInt j)
      else calculateHash_loop blockString powDifficulty (j + 1))"

definition calculateHash :: "Block \<Rightarrow> uint8 \<Rightarrow> (string \<times> string) option" where
  "calculateHash b powDifficulty = calculateHash_loop (blkToString b) powDifficulty 0"

section \<open>The miner's state\<close>

datatype error =
    DisconnectedError string
  | InsufficientInkError uint32
  | InvalidShapeSvgStringError string
  | ShapeSvgStringTooLongError string
  | InvalidShapeHashError string
  | ShapeOwnerError string
  | OutOfBoundsError
  | ShapeOverlapError string
  | InvalidBlockHashError string
  | InvalidMinerPKError string

text \<open>The run-time panics of the functions modelled here.\<close>

datatype panic = IndexOutOfRange | NilMapAssignment

text \<open>
  The package-level variables of ink-miner.go that the modelled functions read or
  write, and the store of map objects. \<open>pubKeyStr\<close> is the value of
  \<^verbatim>\<open>getPubKeyInStr(myPrivKey.PublicKey)\<close> on the package-level \<^verbatim>\<open>myPrivKey\<close>.
  \<open>'p\<close> is \<^verbatim>\<open>SvgHelper.MapPoint\<close>, a type of the package SvgHelper.
\<close>

record 'p miner =
  blockChain :: "Block list"
  settings :: MinerNetSettings
  myKeyPairInString :: string
  pubKeyStr :: string
  currInkMined :: uint32
  inkMaps :: "nat \<Rightarrow> (string \<rightharpoonup> InkAccount)"
  canvasMaps :: "nat \<Rightarrow> (string \<rightharpoonup> 'p)"
  opMaps :: "nat \<Rightarrow> (string \<rightharpoonup> string list)"
  nextRef :: nat

text \<open>
  Reading a key of a map: the \<^verbatim>\<open>v, ok := m[k]\<close> form (\<open>None\<close> when the key is
  absent or the map is \<^verbatim>\<open>nil\<close>) and the \<^verbatim>\<open>v := m[k]\<close> form (the zero value then).
  Writing to a \<^verbatim>\<open>nil\<close> map panics.
\<close>

definition ink_lookup :: "'p miner \<Rightarrow> mapref \<Rightarrow> string \<Rightarrow> InkAccount option" where
  "ink_lookup st r k = (case r of None \<Rightarrow> None | Some a \<Rightarrow> inkMaps st a k)"

definition zeroInkAccount :: InkAccount where
  "zeroInkAccount = \<lparr>inkMined = 0, inkSpent = 0, inkRemain = 0\<rparr>"

definition ink_get :: "'p miner \<Rightarrow> mapref \<Rightarrow> string \<Rightarrow> InkAccount" where
  "ink_get st r k = (case ink_lookup st r k of None \<Rightarrow> zeroInkAccount | Some v \<Rightarrow> v)"

definition ink_store :: "'p miner \<Rightarrow> mapref \<Rightarrow> string \<Rightarrow> InkAccount \<Rightarrow> panic + 'p miner" where
  "ink_store st r k v =
     (case r of None \<Rightarrow> Inl NilMapAssignment
      | Some a \<Rightarrow> Inr (st\<lparr>inkMaps := (inkMaps st)(a := (inkMaps st a)(k \<mapsto> v))\<rparr>))"

definition ops_get :: "'p miner \<Rightarrow> mapref \<Rightarrow> string \<Rightarrow> string list" where
  "ops_get st r k =
     (case r of None \<Rightarrow> []
      | Some a \<Rightarrow> (case opMaps st a k of None \<Rightarrow> [] | Some v \<Rightarrow> v))"

definition ops_store :: "'p miner \<Rightarrow> mapref \<Rightarrow> string \<Rightarrow> string list \<Rightarrow> panic + 'p miner" where
  "ops_store st r k v =
     (case r of None \<Rightarrow> Inl NilMapAssignment
      | Some a \<Rightarrow> Inr (st\<lparr>opMaps := (opMaps st)(a := (opMaps st a)(k \<mapsto> v))\<rparr>))"

section \<open>Mining\<close>

text \<open>
  \<^verbatim>\<open>generateFirstBlock\<close> makes three new maps; the block gets nonce 0 and no nonce
  is searched for.
\<close>

definition generateFirstBlock :: "'p miner \<Rightarrow> Block \<times> 'p miner" where
  "generateFirstBlock st =
     (let a = nextRef st;
          r = InkPerNoOpBlock (settings st);
          st' = st\<lparr>inkMaps := (inkMaps st)
                       (a := [pubKeyStr st \<mapsto> \<lparr>inkMined = r, inkSpent = 0, inkRemain = r\<rparr>]),
                    canvasMaps := (canvasMaps st)(a + 1 := Map.empty),
                    opMaps := (opMaps st)(a + 2 := Map.empty),
                    nextRef := a + 3\<rparr>;
          blk = \<lparr>PrevHash = GenesisBlockHash (settings st), Nonce = 0, Ops = [],
                 NoOpBlock = True, PubKeyMiner = pubKeyStr st, Index = 1,
                 MinerInks = Some a, CanvasInks = Some (a + 1),
                 CanvasOperations = Some (a + 2)\<rparr>
      in (blk, st'))"

definition generateNoOpBlock :: "'p miner \<Rightarrow> string \<Rightarrow> (panic + Block \<times> 'p miner) option" where
  "generateNoOpBlock st minerPubKey =
     (if length (blockChain st) < 1 then Some (Inr (generateFirstBlock st))
      else
        let lastBlk = last (blockChain st);
            difficulty = (if NoOpBlock lastBlk then PoWDifficultyNoOpBlock (settings st)
                          else PoWDifficultyOpBlock (settings st))
        in case calculateHash lastBlk difficulty of
             None \<Rightarrow> None
           | Some (lastBlkHash, _) \<Rightarrow>
               let blk = \<lparr>PrevHash = lastBlkHash, Nonce = 0, Ops = [], NoOpBlock = True,
                          PubKeyMiner = pubKeyStr st, Index = 1,
                          MinerInks = MinerInks lastBlk, CanvasInks = CanvasInks lastBlk,
                          CanvasOperations = CanvasOperations lastBlk\<rparr>;
                   oldMinerInks = MinerInks lastBlk;
                   r = InkPerNoOpBlock (settings st)
               in case (case ink_lookup st oldMinerInks minerPubKey of
                          Some myInkAccount \<Rightarrow>
                            ink_store st oldMinerInks minerPubKey
                              (myInkAccount\<lparr>inkMined := inkMined myInkAccount + r,
                                             inkRemain := inkRemain myInkAccount + r\<rparr>)
                        | None \<Rightarrow>
                            ink_store st oldMinerInks minerPubKey
                              \<lparr>inkMined = r, inkSpent = 0, inkRemain = r\<rparr>) of
                    Inl p \<Rightarrow> Some (Inl p)
                  | Inr st' \<Rightarrow>
                      (case calculateHash blk (PoWDifficultyNoOpBlock (settings st)) of
                         None \<Rightarrow> None
                       | Some (_, currNonce) \<Rightarrow>
                           Some (Inr (blk\<lparr>Nonce := word_of_int (ParseUint currNonce)\<rparr>, st'))))"

definition mineNoOpBlocks :: "'p miner \<Rightarrow> string \<Rightarrow> (panic + 'p miner) option" where
  "mineNoOpBlocks st minerPubKey =
     (case generateNoOpBlock st minerPubKey of
        None \<Rightarrow> None
      | Some (Inl p) \<Rightarrow> Some (Inl p)
      | Some (Inr (blk, st')) \<Rightarrow> Some (Inr (st'\<lparr>blockChain := blockChain st' @ [blk]\<rparr>)))"

text \<open>
  One round of the loop of \<^verbatim>\<open>main\<close>, after its sleep: mine a block under
  \<^verbatim>\<open>myPubKeyStr\<close> (the key string of the local variable \<^verbatim>\<open>myPrivKey\<close> of
  \<^verbatim>\<open>main\<close>), then cache the mined ink of that key in \<^verbatim>\<open>currInkMined\<close>.
\<close>

definition main_round :: "'p miner \<Rightarrow> string \<Rightarrow> (panic + 'p miner) option" where
  "main_round st myPubKeyStr =
     (case mineNoOpBlocks st myPubKeyStr of
        None \<Rightarrow> None
      | Some (Inl p) \<Rightarrow> Some (Inl p)
      | Some (Inr st') \<Rightarrow>
          Some (Inr (st'\<lparr>currInkMined :=
            inkMined (ink_get st' (MinerInks (last (blockChain st'))) myPubKeyStr)\<rparr>)))"

section \<open>Ink totals over a chain\<close>

definition shapeInkCost :: "string \<Rightarrow> uint32" where
  "shapeInkCost shapeSVG = 30"

definition costOfOperations :: "Operation list \<Rightarrow> uint32" where
  "costOfOperations ops = foldl (\<lambda>sum op. sum + shapeInkCost (AppShape op)) 0 ops"

text \<open>
  The pair is (inkSpent, inkMined), in the order the function returns it; the two
  results are called \<open>spent\<close> and \<open>mined\<close> here, the source's names being fields of
  \<open>InkAccount\<close>.
\<close>

definition totalInkSpentAndMinedByMiner ::
  "MinerNetSettings \<Rightarrow> Block list \<Rightarrow> string \<Rightarrow> uint32 \<times> uint32" where
  "totalInkSpentAndMinedByMiner cfg bc miner =
     foldl (\<lambda>(spent, mined) blk.
              if miner = PubKeyMiner blk then
                ((spent + costOfOperations (Ops blk)),
                 (if NoOpBlock blk then mined + InkPerNoOpBlock cfg
                  else mined + InkPerOpBlock cfg))
              else (spent, mined))
       (0, 0) bc"

section \<open>Art-node requests served by the miner\<close>

record AddShapeStruct =
  ValidateNum :: uint8
  SType :: int
  ShapeSvgString :: string
  Fill :: string
  Stroke :: string
  ArtNodePK :: string

record AddShapeReply =
  ShapeHash :: string
  BlockHash :: string
  InkRemaining :: uint32

text \<open>
  \<^verbatim>\<open>DelShapeArgs\<close>, with the fields \<^verbatim>\<open>validateNum\<close>, \<^verbatim>\<open>shapeHash\<close> and
  \<^verbatim>\<open>ArtNodePK\<close> of the source under the prefix \<open>args_\<close> (the bare names are
  parameters of the library's functions and a field of \<open>AddShapeStruct\<close>).
\<close>

record DelShapeArgs =
  args_validateNum :: uint8
  args_shapeHash :: string
  args_ArtNodePK :: string

definition minerInkRemain :: "'p miner \<Rightarrow> uint32" where
  "minerInkRemain st = (if length (blockChain st) = 0 then 0 else currInkMined st)"

text \<open>
  \<^verbatim>\<open>SvgHelper.AddShapeToMap(svg, artNodePK, fill, remainInk, previousMap)\<close> belongs to
  the package SvgHelper and is a parameter of the model: given the entries of the map
  it is passed (\<open>None\<close> for a \<^verbatim>\<open>nil\<close> map) it returns the ink spent, an error or
  \<^verbatim>\<open>nil\<close>, and the entries it leaves in that same map object, or it panics.
\<close>

type_synonym 'p addShapeToMap =
  "string \<Rightarrow> string \<Rightarrow> string \<Rightarrow> int \<Rightarrow> (string \<rightharpoonup> 'p) option
     \<Rightarrow> panic + (int \<times> error option \<times> (string \<rightharpoonup> 'p))"

definition call_AddShapeToMap ::
  "'p addShapeToMap \<Rightarrow> 'p miner \<Rightarrow> string \<Rightarrow> string \<Rightarrow> string \<Rightarrow> int \<Rightarrow> mapref
     \<Rightarrow> panic + (int \<times> error option \<times> 'p miner)" where
  "call_AddShapeToMap f st svg pk fill remainInk previousMap =
     (case previousMap of
        None \<Rightarrow>
          (case f svg pk fill remainInk None of
             Inl p \<Rightarrow> Inl p
           | Inr (spentInk, err, _) \<Rightarrow> Inr (spentInk, err, st))
      | Some a \<Rightarrow>
          (case f svg pk fill remainInk (Some (canvasMaps st a)) of
             Inl p \<Rightarrow> Inl p
           | Inr (spentInk, err, m') \<Rightarrow>
               Inr (spentInk, err, st\<lparr>canvasMaps := (canvasMaps st)(a := m')\<rparr>)))"

definition svg_path :: "string \<Rightarrow> string \<Rightarrow> string \<Rightarrow> string" where
  "svg_path d stroke fill =
     ''<path d='' @ [CHR 0x22] @ d @ [CHR 0x22] @ '' stroke='' @ [CHR 0x22] @ stroke @ [CHR 0x22]
       @ '' fill='' @ [CHR 0x22] @ fill @ [CHR 0x22] @ ''/>''"

text \<open>
  \<^verbatim>\<open>MinerRPC.AddShape\<close>. The result is \<open>None\<close> when a nonce search does not return,
  a panic, or the returned error or reply with the state left behind. After appending
  its block the handler sleeps until the main loop has mined \<^verbatim>\<open>ValidateNum\<close> further
  blocks; that wait is left out, the reply is the one it writes afterwards. The branch
  \<^verbatim>\<open>len(blockChain) == 0\<close> of the source lies behind \<^verbatim>\<open>blockChain[len(blockChain)-1]\<close>
  and is never reached; \<^verbatim>\<open>generateBlock\<close> only supplies the \<^verbatim>\<open>nil\<close> error returned
  at the end.
\<close>

definition MinerRPC_AddShape ::
  "'p addShapeToMap \<Rightarrow> 'p miner \<Rightarrow> AddShapeStruct
     \<Rightarrow> (panic + (error + AddShapeReply) \<times> 'p miner) option" where
  "MinerRPC_AddShape addShapeToMap st args =
     (let svgStr = svg_path (ShapeSvgString args) (Stroke args) (Fill args);
          remainInk = uint (minerInkRemain st)
      in if blockChain st = [] then Some (Inl IndexOutOfRange)
      else
        let lastBlk = last (blockChain st);
            previousMap = CanvasInks lastBlk
        in case call_AddShapeToMap addShapeToMap st (ShapeSvgString args) (ArtNodePK args)
                  (Fill args) remainInk previousMap of
             Inl p \<Rightarrow> Some (Inl p)
           | Inr (spentInk, err, st1) \<Rightarrow>
               let currentInkRemain = remainInk - spentInk
               in (case err of
                     Some e \<Rightarrow> Some (Inr (Inl e, st1))
                   | None \<Rightarrow>
                       let pkStr = pubKeyStr st;
                           shapeHash = computeNonceSecretHash svgStr pkStr;
                           newOp = \<lparr>AppShape = svgStr, OpSig = shapeHash,
                                    PubKeyArtNode = ArtNodePK args\<rparr>;
                           lastOne = int (length (blockChain st)) - 1
                       in (case calculateHash lastBlk (PoWDifficultyOpBlock (settings st)) of
                             None \<Rightarrow> None
                           | Some (preHash, _) \<Rightarrow>
                               let newOps = Ops lastBlk @ [newOp];
                                   mInks = MinerInks lastBlk;
                                   incAcc = ink_get st1 mInks (myKeyPairInString st);
                                   (spent, mined) =
                                     totalInkSpentAndMinedByMiner (settings st) (blockChain st) pkStr;
                                   incAcc' = incAcc\<lparr>inkRemain := word_of_int currentInkRemain,
                                                    inkMined := mined,
                                                    inkSpent := word_of_int spentInk + spent\<rparr>
                               in (case ink_store st1 mInks (myKeyPairInString st) incAcc' of
                                     Inl p \<Rightarrow> Some (Inl p)
                                   | Inr st2 \<Rightarrow>
                                       let canvOps = CanvasOperations lastBlk;
                                           myOps = ops_get st2 canvOps (myKeyPairInString st)
                                                     @ [svgStr @ '':'' @ shapeHash]
                                       in (case ops_store st2 canvOps (myKeyPairInString st) myOps of
                                             Inl p \<Rightarrow> Some (Inl p)
                                           | Inr st3 \<Rightarrow>
                                               let newBlock =
                                                 \<lparr>PrevHash = preHash, Nonce = 0, Ops = newOps,
                                                  NoOpBlock = False,
                                                  PubKeyMiner = myKeyPairInString st,
                                                  Index = lastOne + 1, MinerInks = mInks,
                                                  CanvasInks = previousMap,
                                                  CanvasOperations = canvOps\<rparr>
                                               in (case calculateHash newBlock
                                                         (PoWDifficultyOpBlock (settings st)) of
                                                     None \<Rightarrow> None
                                                   | Some (blockHash, nonce) \<Rightarrow>
                                                       Some (Inr
                                                         (Inr \<lparr>ShapeHash = shapeHash,
                                                               BlockHash = blockHash,
                                                               InkRemaining =
                                                                 word_of_int currentInkRemain\<rparr>,
                                                          st3\<lparr>blockChain := blockChain st3 @
                                                             [newBlock\<lparr>Nonce :=
                                                                word_of_int (ParseUint nonce)\<rparr>]\<rparr>))))))))"

text \<open>
  \<^verbatim>\<open>MinerRPC.DeleteShape\<close>: the loop over the operations of the last block stops at
  the first one whose signature is the requested hash.
\<close>

fun DeleteShape_loop :: "'p miner \<Rightarrow> Operation list \<Rightarrow> DelShapeArgs \<Rightarrow> error + uint32" where
  "DeleteShape_loop st [] args = Inl (InvalidShapeHashError (args_shapeHash args))"
| "DeleteShape_loop st (operation # operations) args =
     (if OpSig operation = args_shapeHash args then
        (if args_ArtNodePK args = PubKeyArtNode operation then
           Inr (inkRemain (ink_get st (MinerInks (last (blockChain st))) (myKeyPairInString st)))
         else Inl (ShapeOwnerError (args_shapeHash args)))
      else DeleteShape_loop st operations args)"

definition MinerRPC_DeleteShape :: "'p miner \<Rightarrow> DelShapeArgs \<Rightarrow> error + uint32" where
  "MinerRPC_DeleteShape st args =
     (if int (length (blockChain st)) - 1 < 0 then Inl (InvalidShapeHashError (args_shapeHash args))
      else DeleteShape_loop st (Ops (last (blockChain st))) args)"

text \<open>
  \<^verbatim>\<open>MinerRPC.GetShapes\<close>: the signatures are written into the slice the caller passed,
  by index; an index at or beyond its length panics.
\<close>

fun GetShapes_write :: "Operation list \<Rightarrow> nat \<Rightarrow> string list \<Rightarrow> panic + string list" where
  "GetShapes_write [] j shapeHashes = Inr shapeHashes"
| "GetShapes_write (operation # ops) j shapeHashes =
     (if j < length shapeHashes
      then GetShapes_write ops (Suc j) (shapeHashes[j := OpSig operation])
      else Inl IndexOutOfRange)"

text \<open>The second loop, \<^verbatim>\<open>i\<close> running from the last index down to 0: \<open>n\<close> is \<^verbatim>\<open>i + 1\<close>.\<close>

fun GetShapes_search ::
  "Block list \<Rightarrow> nat \<Rightarrow> string \<Rightarrow> string list \<Rightarrow> panic + (error + string list)" where
  "GetShapes_search bc 0 blockHash shapeHashes = Inr (Inl (InvalidBlockHashError blockHash))"
| "GetShapes_search bc (Suc i) blockHash shapeHashes =
     (if PrevHash (bc ! i) = blockHash then
        (if i = 0 then Inl IndexOutOfRange
         else (case GetShapes_write (Ops (bc ! (i - 1))) 0 shapeHashes of
                 Inl p \<Rightarrow> Inl p
               | Inr s \<Rightarrow> Inr (Inr s)))
      else GetShapes_search bc i blockHash shapeHashes)"

definition MinerRPC_GetShapes ::
  "'p miner \<Rightarrow> string \<Rightarrow> string list \<Rightarrow> (panic + (error + string list)) option" where
  "MinerRPC_GetShapes st blockHash shapeHashes =
     (if int (length (blockChain st)) - 1 < 0 then Some (Inr (Inl (InvalidBlockHashError blockHash)))
      else
        let lastBlk = last (blockChain st);
            noOp = (if NoOpBlock lastBlk then PoWDifficultyNoOpBlock (settings st)
                    else PoWDifficultyOpBlock (settings st))
        in case calculateHash lastBlk noOp of
             None \<Rightarrow> None
           | Some (lastblockHash, _) \<Rightarrow>
               if lastblockHash = blockHash then
                 (case GetShapes_write (Ops lastBlk) 0 shapeHashes of
                    Inl p \<Rightarrow> Some (Inl p)
                  | Inr s \<Rightarrow> Some (Inr (Inr s)))
               else Some (GetShapes_search (blockChain st) (length (blockChain st))
                            blockHash shapeHashes))"

section \<open>Validation of a received chain\<close>

fun contains :: "string list \<Rightarrow> string \<Rightarrow> bool" where
  "contains [] miner = False"
| "contains (m # miners) miner = (if miner = m then True else contains miners miner)"

definition minersInBlockChain :: "Block list \<Rightarrow> string list" where
  "minersInBlockChain bc =
     foldl (\<lambda>miners blk. if \<not> contains miners (PubKeyMiner blk)
                           then miners @ [PubKeyMiner blk] else miners) [] bc"

definition validateSufficientInkMiner :: "MinerNetSettings \<Rightarrow> Block list \<Rightarrow> string \<Rightarrow> bool" where
  "validateSufficientInkMiner cfg bc key =
     (case totalInkSpentAndMinedByMiner cfg bc key of
        (spent, mined) \<Rightarrow> if mined \<ge> spent then True else False)"

fun validateSufficientInk_loop :: "MinerNetSettings \<Rightarrow> Block list \<Rightarrow> string list \<Rightarrow> bool" where
  "validateSufficientInk_loop cfg bc [] = True"
| "validateSufficientInk_loop cfg bc (miner # miners) =
     (if \<not> validateSufficientInkMiner cfg bc miner then False
      else validateSufficientInk_loop cfg bc miners)"

definition validateSufficientInkAll :: "MinerNetSettings \<Rightarrow> Block list \<Rightarrow> bool" where
  "validateSufficientInkAll cfg bc = validateSufficientInk_loop cfg bc (minersInBlockChain bc)"

definition validateBlockHashNonce :: "MinerNetSettings \<Rightarrow> Block \<Rightarrow> (bool \<times> string) option" where
  "validateBlockHashNonce cfg b =
     (let difficulty = (if NoOpBlock b then PoWDifficultyNoOpBlock cfg
                        else PoWDifficultyOpBlock cfg)
      in if Index b > 1 \<and> \<not> hasNZeros (PrevHash b) difficulty then Some (False, [])
         else (case calculateHash b difficulty of
                 None \<Rightarrow> None
               | Some (currHash, n) \<Rightarrow> Some (n = FormatUint (Nonce b), currHash)))"

fun validateBlockOpSigs_loop :: "string \<Rightarrow> Operation list \<Rightarrow> bool" where
  "validateBlockOpSigs_loop minerKey [] = True"
| "validateBlockOpSigs_loop minerKey (operation # ops) =
     (if \<not> (computeNonceSecretHash minerKey (AppShape operation) = OpSig operation) then False
      else validateBlockOpSigs_loop minerKey ops)"

definition validateBlockOpSigs :: "Block \<Rightarrow> bool" where
  "validateBlockOpSigs b = validateBlockOpSigs_loop (PubKeyMiner b) (Ops b)"

text \<open>The loop of \<^verbatim>\<open>validateBlockChain\<close>, with \<^verbatim>\<open>hashVal\<close> carried from block to block.\<close>

fun validateBlockChain_loop :: "MinerNetSettings \<Rightarrow> string \<Rightarrow> Block list \<Rightarrow> bool option" where
  "validateBlockChain_loop cfg hashVal [] = Some True"
| "validateBlockChain_loop cfg hashVal (b # bc) =
     (if Index b > 1 \<and> \<not> (hashVal = PrevHash b) then Some False
      else (case validateBlockHashNonce cfg b of
              None \<Rightarrow> None
            | Some (boolValidNonce, hashVal') \<Rightarrow>
                if \<not> boolValidNonce \<or> \<not> validateBlockOpSigs b then Some False
                else validateBlockChain_loop cfg hashVal' bc))"

definition validateBlockChain :: "MinerNetSettings \<Rightarrow> Block list \<Rightarrow> bool option" where
  "validateBlockChain cfg bc = validateBlockChain_loop cfg [] bc"

definition isSentChainLonger :: "'p miner \<Rightarrow> Block list \<Rightarrow> bool" where
  "isSentChainLonger st newBlocks =
     (if length newBlocks > length (blockChain st) then True else False)"

text \<open>
  \<^verbatim>\<open>MinerToMinerRPC.SendBlockchain\<close>: \<open>None\<close> when a nonce search of the validation
  does not return. The maps of the received blocks are objects of the store.
\<close>

definition MinerToMinerRPC_SendBlockchain :: "'p miner \<Rightarrow> Block list \<Rightarrow> 'p miner option" where
  "MinerToMinerRPC_SendBlockchain st bc =
     (if isSentChainLonger st bc then
        (if validateSufficientInkAll (settings st) bc then
           (case validateBlockChain (settings st) bc of
              None \<Rightarrow> None
            | Some ok \<Rightarrow> if ok then Some (st\<lparr>blockChain := bc\<rparr>) else Some st)
         else Some st)
      else Some st)"

section \<open>The art node's library (blockartlib.go)\<close>

text \<open>
  \<^verbatim>\<open>c.conn.Call(method, args, &reply)\<close> is a function from the request to the error
  or the reply; the library functions return their results and the requests they sent.
\<close>

datatype rpc_request =
    InkMinerRPC_AddShape AddShapeStruct
  | InkMinerRPC_DeleteShape DelShapeArgs

datatype rpc_reply =
    AddShape_reply AddShapeReply
  | DeleteShape_reply uint32

type_synonym rpc_conn = "rpc_request \<Rightarrow> error + rpc_reply"

definition MyCanvas_AddShape ::
  "rpc_conn \<Rightarrow> string \<Rightarrow> uint8 \<Rightarrow> int \<Rightarrow> string \<Rightarrow> string \<Rightarrow> string
     \<Rightarrow> (string \<times> string \<times> uint32 \<times> error option) \<times> rpc_request list" where
  "MyCanvas_AddShape conn artPKStr validateNum shapeType shapeSvgString fill stroke =
     (if length shapeSvgString > 128 then
        (([], [], 0, Some (ShapeSvgStringTooLongError shapeSvgString)), [])
      else if stroke = fill \<and> fill = ''transparent'' then
        (([], [], 0, Some (InvalidShapeSvgStringError
            (''fill and stroke can'' @ [CHR 0x27] @ ''t both be transparent''))), [])
      else
        let args = \<lparr>ValidateNum = 1, SType = shapeType, ShapeSvgString = shapeSvgString,
                    Fill = fill, Stroke = stroke, ArtNodePK = artPKStr\<rparr>;
            err = (case conn (InkMinerRPC_AddShape args) of Inl e \<Rightarrow> Some e | Inr reply \<Rightarrow> None)
        in (([], [], 0, err), [InkMinerRPC_AddShape args]))"

definition MyCanvas_DeleteShape ::
  "rpc_conn \<Rightarrow> uint8 \<Rightarrow> string \<Rightarrow> (uint32 \<times> error option) \<times> rpc_request list" where
  "MyCanvas_DeleteShape conn validateNum shapeHash =
     (let args = \<lparr>args_validateNum = 0, args_shapeHash = [], args_ArtNodePK = []\<rparr>
      in (case conn (InkMinerRPC_DeleteShape args) of
            Inl e \<Rightarrow> (0, Some e)
          | Inr (DeleteShape_reply inkRemaining) \<Rightarrow> (inkRemaining, None)
          | Inr _ \<Rightarrow> (0, None),
          [InkMinerRPC_DeleteShape args]))"

text \<open>
  An art node's connection to a miner in state \<open>st\<close>: the request is answered by the
  miner's handler. A handler that panics or does not return sends no reply, and the
  call ends with an error.
\<close>

definition miner_conn :: "'p addShapeToMap \<Rightarrow> 'p miner \<Rightarrow> rpc_conn" where
  "miner_conn addShapeToMap st req =
     (case req of
        InkMinerRPC_AddShape args \<Rightarrow>
          (case MinerRPC_AddShape addShapeToMap st args of
             Some (Inr (Inr reply, st')) \<Rightarrow> Inr (AddShape_reply reply)
           | Some (Inr (Inl e, st')) \<Rightarrow> Inl e
           | _ \<Rightarrow> Inl (DisconnectedError []))
      | InkMinerRPC_DeleteShape args \<Rightarrow>
          (case MinerRPC_DeleteShape st args of
             Inl e \<Rightarrow> Inl e
           | Inr inkRemaining \<Rightarrow> Inr (DeleteShape_reply inkRemaining)))"

section \<open>The specification's words\<close>

text \<open>
  The block serialization as the specification words it: parent hash, the operation
  records in order, producer key, depth as a little-endian 32-bit integer, nonce as a
  little-endian 32-bit integer; and the hex MD5 of it.
\<close>

definition spec_block_serialization :: "Block \<Rightarrow> byte list" where
  "spec_block_serialization b =
     bytes_of (PrevHash b)
     @ concat (map (\<lambda>operation. bytes_of (AppShape operation @ OpSig operation
                                            @ PubKeyArtNode operation)) (Ops b))
     @ bytes_of (PubKeyMiner b)
     @ le_bytes 4 (word_of_int (Index b) :: uint32)
     @ le_bytes 4 (Nonce b)"

definition spec_block_hash :: "Block \<Rightarrow> string" where
  "spec_block_hash b = EncodeToString (md5_sum (spec_block_serialization b))"

text \<open>The ink account invariant of the specification, on 32-bit unsigned fields.\<close>

definition ink_invariant :: "InkAccount \<Rightarrow> bool" where
  "ink_invariant a = (inkRemain a = inkMined a - inkSpent a \<and> inkSpent a \<le> inkMined a)"

section \<open>Sample settings, states and requests\<close>

text \<open>
  Settings with both difficulties 0, as in the specification's scenarios, and 30 ink
  for a no-op block; settings with both difficulties 1.
\<close>

definition example_settings :: MinerNetSettings where
  "example_settings =
     \<lparr>GenesisBlockHash = ''83218ac34c1834c26781fe4bde918ee4'', MinNumMinerConnections = 2,
      InkPerOpBlock = 5, InkPerNoOpBlock = 30, HeartBeat = 3000,
      PoWDifficultyOpBlock = 0, PoWDifficultyNoOpBlock = 0,
      CanvasXMax = 1024, CanvasYMax = 1024\<rparr>"

definition pow_settings :: MinerNetSettings where
  "pow_settings =
     \<lparr>GenesisBlockHash = ''83218ac34c1834c26781fe4bde918ee4'', MinNumMinerConnections = 2,
      InkPerOpBlock = 5, InkPerNoOpBlock = 1, HeartBeat = 3000,
      PoWDifficultyOpBlock = 1, PoWDifficultyNoOpBlock = 1,
      CanvasXMax = 1024, CanvasYMax = 1024\<rparr>"

text \<open>A miner that has just registered: no block, no ink, no map.\<close>

definition start_state :: "MinerNetSettings \<Rightarrow> string \<Rightarrow> unit miner" where
  "start_state cfg pk =
     \<lparr>blockChain = [], settings = cfg, myKeyPairInString = ''K'', pubKeyStr = pk,
      currInkMined = 0, inkMaps = (\<lambda>a. Map.empty), canvasMaps = (\<lambda>a. Map.empty),
      opMaps = (\<lambda>a. Map.empty), nextRef = 0\<rparr>"

text \<open>
  A stand-in for \<^verbatim>\<open>SvgHelper.AddShapeToMap\<close> in the samples: every shape costs
  \<open>cost\<close>, the call fails with insufficient ink when less remains, and the canvas map
  is left as it is.
\<close>

definition charge :: "int \<Rightarrow> unit addShapeToMap" where
  "charge cost svg pk fill remainInk previousMap =
     Inr (cost,
          (if remainInk < cost then Some (InsufficientInkError (word_of_int remainInk)) else None),
          (case previousMap of None \<Rightarrow> Map.empty | Some m \<Rightarrow> m))"

definition triangle_args :: AddShapeStruct where
  "triangle_args =
     \<lparr>ValidateNum = 1, SType = 0, ShapeSvgString = ''M 0 0 l 10 0 l 0 10 z'',
      Fill = ''filled'', Stroke = ''red'', ArtNodePK = ''artP''\<rparr>"

text \<open>
  A chain of two no-op blocks mined by a peer \<open>Q\<close>, as \<^verbatim>\<open>generateNoOpBlock\<close> makes
  them (index 1, no operations); their maps are the objects at the addresses 10 to 12.
\<close>

definition peer_block :: "string \<Rightarrow> Block" where
  "peer_block prev =
     \<lparr>PrevHash = prev, Nonce = 0, Ops = [], NoOpBlock = True, PubKeyMiner = ''Q'', Index = 1,
      MinerInks = Some 10, CanvasInks = Some 11, CanvasOperations = Some 12\<rparr>"

definition peer_chain :: "Block list" where
  "peer_chain =
     [peer_block ''83218ac34c1834c26781fe4bde918ee4'',
      peer_block (computeNonceSecretHash
                    (blkToString (peer_block ''83218ac34c1834c26781fe4bde918ee4'')) ''0'')]"

text \<open>
  Two chains of that peer: one whose second block names a parent hash that is not the
  hash of the first block, and one whose second block carries nonce 1.
\<close>

definition broken_chain :: "Block list" where
  "broken_chain = [peer_block ''83218ac34c1834c26781fe4bde918ee4'', peer_block ''bogus'']"

definition late_nonce_chain :: "Block list" where
  "late_nonce_chain =
     [peer_block ''83218ac34c1834c26781fe4bde918ee4'',
      (peer_block ''83218ac34c1834c26781fe4bde918ee4'')\<lparr>Nonce := 1\<rparr>]"

text \<open>The first block of a miner whose key string is \<open>miner12\<close>.\<close>

definition sample_block :: Block where
  "sample_block =
     \<lparr>PrevHash = ''83218ac34c1834c26781fe4bde918ee4'', Nonce = 0, Ops = [], NoOpBlock = True,
      PubKeyMiner = ''miner12'', Index = 1,
      MinerInks = Some 0, CanvasInks = Some 1, CanvasOperations = Some 2\<rparr>"

text \<open>A block with one operation, for \<^verbatim>\<open>GetShapes\<close>.\<close>

definition op_block :: Block where
  "op_block =
     \<lparr>PrevHash = ''83218ac34c1834c26781fe4bde918ee4'', Nonce = 0,
      Ops = [\<lparr>AppShape = ''shape'', OpSig = ''sig'', PubKeyArtNode = ''artP''\<rparr>],
      NoOpBlock = False, PubKeyMiner = ''K'', Index = 1,
      MinerInks = Some 0, CanvasInks = Some 1, CanvasOperations = Some 2\<rparr>"

text \<open>
  The sample miner after the first round of its main loop, after mining once more, and
  after serving the triangle request at a cost of 21 ink instead.
\<close>

definition mined_once :: "unit miner" where
  "mined_once = (case main_round (start_state example_settings ''P'') ''P'' of
                   Some (Inr s) \<Rightarrow> s | _ \<Rightarrow> start_state example_settings ''P'')"

definition mined_first :: "unit miner" where
  "mined_first = (case mineNoOpBlocks (start_state example_settings ''P'') ''P'' of
                    Some (Inr s) \<Rightarrow> s | _ \<Rightarrow> start_state example_settings ''P'')"

definition mined_again :: "unit miner" where
  "mined_again = (case mineNoOpBlocks mined_once ''P'' of
                    Some (Inr s) \<Rightarrow> s | _ \<Rightarrow> mined_once)"

definition shape_added :: "AddShapeReply \<times> unit miner" where
  "shape_added = (case MinerRPC_AddShape (charge 21) mined_once triangle_args of
                    Some (Inr (Inr reply, s)) \<Rightarrow> (reply, s)
                  | _ \<Rightarrow> (\<lparr>ShapeHash = [], BlockHash = [], InkRemaining = 0\<rparr>, mined_once))"

section \<open>Facts about the library functions and the nonce search\<close>

subsection \<open>Formatting, parsing and hash lengths\<close>

lemma char_of_48: "char_of (48::int) = CHR ''0''"
  by (simp add: char_of_def)

lemma decimal_0: "decimal 0 = ''0''"
  by (simp add: decimal.simps char_of_48)

lemma FormatInt_0: "FormatInt 0 = ''0''"
  by (simp add: FormatInt_def decimal_0)

lemma FormatInt_1: "FormatInt 1 = ''1''"
  by code_simp

lemma FormatUint_0: "FormatUint 0 = ''0''"
  by (simp add: FormatUint_def decimal_0)

lemma ParseUint_0: "ParseUint ''0'' = 0"
  by (simp add: ParseUint_def is_digit_def)

lemma rune_string_1: "rune_string 1 = [CHR 0x01]"
  by (simp add: rune_string_def char_of_def)

lemma hasNZeros_0: "hasNZeros h 0"
  by (simp add: hasNZeros_def HasSuffix_def Repeat_def)

lemma length_le_bytes: "length (le_bytes k w) = k"
  by (simp add: le_bytes_def)

lemma length_md5_sum: "length (md5_sum m) = 16"
  by (simp add: md5_sum_def Let_def length_le_bytes split: prod.splits)

lemma length_EncodeToString: "length (EncodeToString bs) = 2 * length bs"
  by (induction bs) (simp_all add: EncodeToString_def)

lemma length_computeNonceSecretHash: "length (computeNonceSecretHash a b) = 32"
  by (simp add: computeNonceSecretHash_def length_EncodeToString length_md5_sum)

lemma computeNonceSecretHash_not_empty: "computeNonceSecretHash a b \<noteq> []"
  using length_computeNonceSecretHash [of a b] by auto

lemma convertOpToString_foldl:
  "foldl (\<lambda>opsString element. opsString @ AppShape element @ OpSig element @ PubKeyArtNode element)
     acc ops
   = acc @ concat (map (\<lambda>operation. AppShape operation @ OpSig operation @ PubKeyArtNode operation) ops)"
  by (induction ops arbitrary: acc) simp_all

lemma convertOpToString_concat:
  "convertOpToString ops =
     concat (map (\<lambda>operation. AppShape operation @ OpSig operation @ PubKeyArtNode operation) ops)"
  by (simp add: convertOpToString_def convertOpToString_foldl)

subsection \<open>The nonce search\<close>

lemma calculateHash_loop_result:
  assumes "calculateHash_loop bs d j = Some r"
  shows "hasNZeros (fst r) d \<and> (\<exists>k. snd r = FormatInt k)
           \<and> fst r = computeNonceSecretHash bs (snd r)"
  by (rule calculateHash_loop.raw_induct
           [where P = "\<lambda>bs d j r. hasNZeros (fst r) d \<and> (\<exists>k. snd r = FormatInt k)
                          \<and> fst r = computeNonceSecretHash bs (snd r)", OF _ assms])
     (auto split: if_splits)

lemma calculateHash_result:
  "calculateHash b d = Some (h, n) \<Longrightarrow>
     hasNZeros h d \<and> (\<exists>k. n = FormatInt k) \<and> h = computeNonceSecretHash (blkToString b) n"
  using calculateHash_loop_result [of "blkToString b" d 0 "(h, n)"]
  unfolding calculateHash_def by auto

lemma calculateHash_difficulty_0:
  "calculateHash b 0 = Some (computeNonceSecretHash (blkToString b) ''0'', ''0'')"
  by (simp add: calculateHash_def calculateHash_loop.simps hasNZeros_0 FormatInt_0)

subsection \<open>Running the samples\<close>

text \<open>With difficulty 0 the nonce search returns at once, so the sample runs evaluate.\<close>

lemmas run_defs = start_state_def example_settings_def main_round_def mineNoOpBlocks_def
  generateNoOpBlock_def generateFirstBlock_def Let_def ink_get_def ink_lookup_def ink_store_def
  ops_get_def ops_store_def calculateHash_difficulty_0 ParseUint_0 zeroInkAccount_def
  MinerRPC_AddShape_def call_AddShapeToMap_def charge_def minerInkRemain_def triangle_args_def
  totalInkSpentAndMinedByMiner_def costOfOperations_def shapeInkCost_def

lemma mined_first_run:
  "mineNoOpBlocks (start_state example_settings ''P'') ''P'' = Some (Inr mined_first)"
  by (simp add: mined_first_def run_defs)

lemma mined_again_run: "mineNoOpBlocks mined_once ''P'' = Some (Inr mined_again)"
  by (simp add: mined_again_def mined_once_def run_defs)

lemma shape_added_run:
  "MinerRPC_AddShape (charge 21) mined_once triangle_args
     = Some (Inr (Inr (fst shape_added), snd shape_added))"
  by (simp add: shape_added_def mined_once_def run_defs)

lemma mined_once_facts:
  "blockChain mined_once \<noteq> []" "length (blockChain mined_once) = 1"
  "settings mined_once = example_settings" "currInkMined mined_once = 30"
  "pubKeyStr mined_once = ''P''" "myKeyPairInString mined_once = ''K''"
  "ink_lookup mined_once (MinerInks (last (blockChain mined_once))) ''P''
     = Some \<lparr>inkMined = 30, inkSpent = 0, inkRemain = 30\<rparr>"
  "totalInkSpentAndMinedByMiner example_settings (blockChain mined_once) ''P'' = (0, 30)"
  "MinerInks (last (blockChain mined_once)) = Some 0"
  "CanvasInks (last (blockChain mined_once)) = Some 1"
  "CanvasOperations (last (blockChain mined_once)) = Some 2"
  by (simp_all add: mined_once_def run_defs)

lemma shape_added_facts: "InkRemaining (fst shape_added) = 9"
  by (simp add: shape_added_def mined_once_def run_defs)

subsection \<open>What appending a block writes\<close>

lemma InkAccount_all_fields:
  "(a :: InkAccount)\<lparr>inkRemain := r, inkMined := m, inkSpent := s\<rparr>
     = \<lparr>inkMined = m, inkSpent = s, inkRemain = r\<rparr>"
  by (cases a) simp

lemma word_diff_diff_cancel: "(a :: 'a::len word) - (a - b) = b"
  by simp

lemma mineNoOpBlocks_appends:
  assumes "mineNoOpBlocks st pk = Some (Inr st')" and "blockChain st \<noteq> []"
  shows "(\<exists>blk. blockChain st' = blockChain st @ [blk]
           \<and> MinerInks blk = MinerInks (last (blockChain st))
           \<and> CanvasInks blk = CanvasInks (last (blockChain st))
           \<and> CanvasOperations blk = CanvasOperations (last (blockChain st)))
         \<and> canvasMaps st' = canvasMaps st \<and> opMaps st' = opMaps st
         \<and> MinerInks (last (blockChain st)) \<noteq> None
         \<and> (\<forall>a. MinerInks (last (blockChain st)) = Some a \<longrightarrow>
               inkMaps st' = (inkMaps st)(a := (inkMaps st a)(pk \<mapsto>
                (case inkMaps st a pk of
                   None \<Rightarrow> \<lparr>inkMined = InkPerNoOpBlock (settings st), inkSpent = 0,
                             inkRemain = InkPerNoOpBlock (settings st)\<rparr>
                 | Some acc \<Rightarrow> acc\<lparr>inkMined := inkMined acc + InkPerNoOpBlock (settings st),
                                    inkRemain := inkRemain acc + InkPerNoOpBlock (settings st)\<rparr>))))"
  using assms
  by (auto simp: mineNoOpBlocks_def generateNoOpBlock_def Let_def ink_store_def ink_lookup_def
        split: option.splits sum.splits prod.splits if_splits)

lemma mineNoOpBlocks_first:
  assumes "mineNoOpBlocks st pk = Some (Inr st')" and "blockChain st = []"
  shows "\<exists>blk. blockChain st' = [blk] \<and> MinerInks blk = Some (nextRef st)
           \<and> inkMaps st' (nextRef st) =
               [pubKeyStr st \<mapsto> \<lparr>inkMined = InkPerNoOpBlock (settings st), inkSpent = 0,
                                   inkRemain = InkPerNoOpBlock (settings st)\<rparr>]"
  using assms
  by (auto simp: mineNoOpBlocks_def generateNoOpBlock_def generateFirstBlock_def Let_def)

lemma AddShape_appends:
  assumes "MinerRPC_AddShape f st args = Some (Inr (Inr reply, st'))"
  shows "blockChain st \<noteq> []
         \<and> (\<exists>blk. blockChain st' = blockChain st @ [blk]
           \<and> MinerInks blk = MinerInks (last (blockChain st))
           \<and> CanvasInks blk = CanvasInks (last (blockChain st))
           \<and> CanvasOperations blk = CanvasOperations (last (blockChain st)))
         \<and> MinerInks (last (blockChain st)) \<noteq> None
         \<and> (\<forall>a. MinerInks (last (blockChain st)) = Some a \<longrightarrow>
              inkMaps st' = (inkMaps st)(a := (inkMaps st a)(myKeyPairInString st \<mapsto>
                \<lparr>inkMined = snd (totalInkSpentAndMinedByMiner (settings st) (blockChain st)
                                   (pubKeyStr st)),
                 inkSpent = (currInkMined st - InkRemaining reply)
                    + fst (totalInkSpentAndMinedByMiner (settings st) (blockChain st) (pubKeyStr st)),
                 inkRemain = InkRemaining reply\<rparr>)))
         \<and> (\<forall>a' k. \<not> (CanvasOperations (last (blockChain st)) = Some a' \<and> k = myKeyPairInString st)
                 \<longrightarrow> opMaps st' a' k = opMaps st a' k)
         \<and> (\<forall>a'. CanvasInks (last (blockChain st)) \<noteq> Some a'
                 \<longrightarrow> canvasMaps st' a' = canvasMaps st a')"
  using assms
  by (auto simp: MinerRPC_AddShape_def Let_def ink_store_def ops_store_def ink_get_def
        ink_lookup_def call_AddShapeToMap_def minerInkRemain_def zeroInkAccount_def
        InkAccount_all_fields word_diff_diff_cancel
        split: option.splits sum.splits prod.splits if_splits)

section \<open>The library's AddShape and DeleteShape\<close>

text \<open>
  C7. \<^verbatim>\<open>AddShape\<close> of the library on a path of more than 128 bytes returns the
  shape-too-long error carrying the path, with empty hashes and no ink, and sends no
  request, whatever the connection would answer. On a path of exactly 128 bytes the
  length check does not fire: the call either fails on fill and stroke both being
  \<^verbatim>\<open>"transparent"\<close>, or sends the request holding the path to the miner and returns
  the miner's error or \<^verbatim>\<open>nil\<close>.
\<close>

theorem AddShape_path_length_limit:
  "(128 < length shapeSvgString \<longrightarrow>
      MyCanvas_AddShape conn artPKStr validateNum shapeType shapeSvgString fill stroke =
        (([], [], 0, Some (ShapeSvgStringTooLongError shapeSvgString)), []))
   \<and> (length shapeSvgString = 128 \<longrightarrow>
      MyCanvas_AddShape conn artPKStr validateNum shapeType shapeSvgString fill stroke =
        (if stroke = fill \<and> fill = ''transparent'' then
           (([], [], 0, Some (InvalidShapeSvgStringError
              (''fill and stroke can'' @ [CHR 0x27] @ ''t both be transparent''))), [])
         else
           (([], [], 0,
             (case conn (InkMinerRPC_AddShape
                      \<lparr>ValidateNum = 1, SType = shapeType, ShapeSvgString = shapeSvgString,
                       Fill = fill, Stroke = stroke, ArtNodePK = artPKStr\<rparr>) of
                Inl e \<Rightarrow> Some e | Inr reply \<Rightarrow> None)),
            [InkMinerRPC_AddShape
               \<lparr>ValidateNum = 1, SType = shapeType, ShapeSvgString = shapeSvgString,
                Fill = fill, Stroke = stroke, ArtNodePK = artPKStr\<rparr>])))"
  by (simp add: MyCanvas_AddShape_def Let_def)

theorem AddShape_path_length_limit_witness:
  "128 < length (replicate 129 CHR ''M'')
   \<and> MyCanvas_AddShape (\<lambda>req. Inr (DeleteShape_reply 0)) ''k'' 2 0 (replicate 129 CHR ''M'')
        ''transparent'' ''red''
      = (([], [], 0, Some (ShapeSvgStringTooLongError (replicate 129 CHR ''M''))), [])
   \<and> length (replicate 128 CHR ''M'') = 128
   \<and> MyCanvas_AddShape (\<lambda>req. Inl (InsufficientInkError 7)) ''k'' 2 0 (replicate 128 CHR ''M'')
        ''transparent'' ''red''
      = (([], [], 0, Some (InsufficientInkError 7)),
         [InkMinerRPC_AddShape
            \<lparr>ValidateNum = 1, SType = 0, ShapeSvgString = replicate 128 CHR ''M'',
             Fill = ''transparent'', Stroke = ''red'', ArtNodePK = ''k''\<rparr>])"
  using AddShape_path_length_limit
          [of "replicate 129 CHR ''M''" "\<lambda>req. Inr (DeleteShape_reply 0)" "''k''" 2 0
              "''transparent''" "''red''"]
        AddShape_path_length_limit
          [of "replicate 128 CHR ''M''" "\<lambda>req. Inl (InsufficientInkError 7)" "''k''" 2 0
              "''transparent''" "''red''"]
  by simp

text \<open>
  C9. \<^verbatim>\<open>DeleteShape\<close> of the library sends one request, the \<^verbatim>\<open>DelShapeArgs\<close> record
  with every field at its zero value, whatever \<^verbatim>\<open>validateNum\<close> and \<^verbatim>\<open>shapeHash\<close> it
  is called with; two calls therefore return the same result on every connection,
  the miner's handler being run on the same arguments.
\<close>

theorem DeleteShape_request_independent:
  "snd (MyCanvas_DeleteShape conn validateNum1 shapeHash1) =
     [InkMinerRPC_DeleteShape \<lparr>args_validateNum = 0, args_shapeHash = [], args_ArtNodePK = []\<rparr>]
   \<and> snd (MyCanvas_DeleteShape conn validateNum2 shapeHash2) =
     [InkMinerRPC_DeleteShape \<lparr>args_validateNum = 0, args_shapeHash = [], args_ArtNodePK = []\<rparr>]
   \<and> MyCanvas_DeleteShape conn validateNum1 shapeHash1 =
       MyCanvas_DeleteShape conn validateNum2 shapeHash2"
  by (simp add: MyCanvas_DeleteShape_def Let_def)

text \<open>
  C3. The miner's handler replies to an add-shape request with the shape hash, the
  block hash and the remaining ink: with 30 ink mined and a shape costing 21 ink the
  reply holds two 32-character hashes and 9. The library's \<^verbatim>\<open>AddShape\<close> receives that
  reply and returns its own named results, which it never assigns: two empty strings
  and 0.
\<close>

theorem library_AddShape_drops_reply:
  "(case main_round (start_state example_settings ''P'') ''P'' of
      Some (Inr s1) \<Rightarrow>
        (case MinerRPC_AddShape (charge 21) s1 triangle_args of
           Some (Inr (Inr reply, s2)) \<Rightarrow>
             currInkMined s1 = 30 \<and> InkRemaining reply = 9
             \<and> length (ShapeHash reply) = 32 \<and> length (BlockHash reply) = 32
             \<and> MyCanvas_AddShape (miner_conn (charge 21) s1) ''artP'' 2 0
                  ''M 0 0 l 10 0 l 0 10 z'' ''filled'' ''red''
                 = (([], [], 0, None), [InkMinerRPC_AddShape triangle_args])
         | _ \<Rightarrow> False)
    | _ \<Rightarrow> False)"
  by (simp add: run_defs MyCanvas_AddShape_def miner_conn_def length_computeNonceSecretHash)

text \<open>
  C8. After the triangle of art node \<open>artP\<close> is added, the miner's handler, given
  the shape hash, returns the remaining ink for \<open>artP\<close> and the owner error for
  \<open>artQ\<close>. The library's \<^verbatim>\<open>DeleteShape\<close>, called with that shape hash, sends the
  empty hash and the empty key, and the call fails with the invalid-shape-hash error
  for the empty hash, whoever the caller is.
\<close>

theorem library_DeleteShape_never_reaches_shape:
  "(case main_round (start_state example_settings ''P'') ''P'' of
      Some (Inr s1) \<Rightarrow>
        (case MinerRPC_AddShape (charge 21) s1 triangle_args of
           Some (Inr (Inr reply, s2)) \<Rightarrow>
             MinerRPC_DeleteShape s2
                \<lparr>args_validateNum = 2, args_shapeHash = ShapeHash reply, args_ArtNodePK = ''artP''\<rparr>
               = Inr 9
             \<and> MinerRPC_DeleteShape s2
                \<lparr>args_validateNum = 2, args_shapeHash = ShapeHash reply, args_ArtNodePK = ''artQ''\<rparr>
               = Inl (ShapeOwnerError (ShapeHash reply))
             \<and> MyCanvas_DeleteShape (miner_conn (charge 21) s2) 2 (ShapeHash reply)
                 = ((0, Some (InvalidShapeHashError [])),
                    [InkMinerRPC_DeleteShape
                       \<lparr>args_validateNum = 0, args_shapeHash = [], args_ArtNodePK = []\<rparr>])
         | _ \<Rightarrow> False)
    | _ \<Rightarrow> False)"
  by (simp add: run_defs MyCanvas_DeleteShape_def miner_conn_def MinerRPC_DeleteShape_def
        computeNonceSecretHash_not_empty)

section \<open>The serialization that is hashed\<close>

lemma sample_hash_nonce_0:
  "computeNonceSecretHash (''83218ac34c1834c26781fe4bde918ee4miner12'' @ [CHR 0x01]) ''0''
     = ''4ae1d168da09768beffa02abf1db5d9f''"
  by code_simp

lemma sample_hash_nonce_1:
  "computeNonceSecretHash (''83218ac34c1834c26781fe4bde918ee4miner12'' @ [CHR 0x01]) ''1''
     = ''8d3a54d0ad84a9cac470955e0cceab80''"
  by code_simp

lemma sample_spec_hash: "spec_block_hash sample_block = ''75cafa277a052061d9403513d0a32268''"
  by code_simp

lemma blkToString_sample:
  "blkToString sample_block = ''83218ac34c1834c26781fe4bde918ee4miner12'' @ [CHR 0x01]"
  by (simp add: blkToString_def sample_block_def convertOpToString_def rune_string_1)

text \<open>
  C4, as the specification states it, fails on the sample block: the hash the code
  computes for it (nonce 0, difficulty 0) is the MD5 of 41 bytes ending in the byte 1
  and the character \<^verbatim>\<open>0\<close>, not the MD5 of the 47 bytes that end in the two
  little-endian 32-bit integers.
\<close>

theorem block_hash_serialization_counterexample:
  "calculateHash sample_block 0 = Some (''4ae1d168da09768beffa02abf1db5d9f'', ''0'')
   \<and> FormatUint (Nonce sample_block) = ''0''
   \<and> spec_block_hash sample_block = ''75cafa277a052061d9403513d0a32268''
   \<and> calculateHash sample_block 0 \<noteq> Some (spec_block_hash sample_block, ''0'')
   \<and> bytes_of (blkToString sample_block @ ''0'') \<noteq> spec_block_serialization sample_block"
proof -
  have 1: "calculateHash sample_block 0 = Some (''4ae1d168da09768beffa02abf1db5d9f'', ''0'')"
    using sample_hash_nonce_0 by (simp add: calculateHash_difficulty_0 blkToString_sample)
  have 2: "FormatUint (Nonce sample_block) = ''0''"
    by (simp add: sample_block_def FormatUint_0)
  have 3: "length (bytes_of (blkToString sample_block @ ''0'')) = 41"
    by (simp add: blkToString_sample bytes_of_def)
  have 4: "length (spec_block_serialization sample_block) = 47"
    by (simp add: spec_block_serialization_def sample_block_def bytes_of_def length_le_bytes)
  from 3 4 have 5: "bytes_of (blkToString sample_block @ ''0'') \<noteq> spec_block_serialization sample_block"
    by auto
  from 1 2 5 show ?thesis by (simp add: sample_spec_hash)
qed

lemma calculateHash_serialization:
  assumes "calculateHash b d = Some (h, n)"
  shows "h = EncodeToString (md5_sum (bytes_of
            (PrevHash b
             @ concat (map (\<lambda>operation. AppShape operation @ OpSig operation
                                          @ PubKeyArtNode operation) (Ops b))
             @ PubKeyMiner b @ rune_string (Index b) @ n)))"
proof -
  from calculateHash_result [OF assms]
  have "h = computeNonceSecretHash (blkToString b) n"
    by auto
  then show ?thesis
    by (simp add: computeNonceSecretHash_def blkToString_def convertOpToString_concat)
qed

lemma validateBlockHashNonce_True:
  assumes "validateBlockHashNonce cfg b = Some (True, h)"
  shows "calculateHash b (if NoOpBlock b then PoWDifficultyNoOpBlock cfg
                          else PoWDifficultyOpBlock cfg) = Some (h, FormatUint (Nonce b))"
  using assms
  by (auto simp: validateBlockHashNonce_def Let_def split: if_splits option.splits)

text \<open>
  C4, amended. The hash \<^verbatim>\<open>calculateHash\<close> returns for a block, and the hash under
  which \<^verbatim>\<open>validateBlockHashNonce\<close> accepts a block's stored nonce, is the hex-encoded
  MD5 of the concatenation of the parent hash, the operation records in order (shape
  string, signature, art-node key), the producer key, the UTF-8 encoding of the code
  point whose number is the block's index (of U+FFFD when there is none), and the nonce
  in decimal digits.
\<close>

theorem block_hash_serialization:
  "(calculateHash b d = Some (h, n) \<longrightarrow>
      h = EncodeToString (md5_sum (bytes_of
            (PrevHash b
             @ concat (map (\<lambda>operation. AppShape operation @ OpSig operation
                                          @ PubKeyArtNode operation) (Ops b))
             @ PubKeyMiner b @ rune_string (Index b) @ n)))
      \<and> (\<exists>j. n = FormatInt j) \<and> hasNZeros h d)
   \<and> (validateBlockHashNonce cfg b = Some (True, h) \<longrightarrow>
      h = EncodeToString (md5_sum (bytes_of
            (PrevHash b
             @ concat (map (\<lambda>operation. AppShape operation @ OpSig operation
                                          @ PubKeyArtNode operation) (Ops b))
             @ PubKeyMiner b @ rune_string (Index b) @ decimal (uint (Nonce b))))))"
  using calculateHash_serialization [of b d h n] calculateHash_result [of b d h n]
    calculateHash_serialization [OF validateBlockHashNonce_True, of cfg b h]
  by (auto simp: FormatUint_def)

theorem block_hash_serialization_witness:
  "calculateHash sample_block 0 = Some (''4ae1d168da09768beffa02abf1db5d9f'', ''0'')
   \<and> ''4ae1d168da09768beffa02abf1db5d9f'' =
       EncodeToString (md5_sum (bytes_of
         (''83218ac34c1834c26781fe4bde918ee4'' @ [] @ ''miner12'' @ [CHR 0x01] @ ''0'')))
   \<and> validateBlockHashNonce example_settings sample_block
        = Some (True, ''4ae1d168da09768beffa02abf1db5d9f'')"
proof -
  have 1: "calculateHash sample_block 0 = Some (''4ae1d168da09768beffa02abf1db5d9f'', ''0'')"
    using sample_hash_nonce_0 by (simp add: calculateHash_difficulty_0 blkToString_sample)
  have 2: "validateBlockHashNonce example_settings sample_block
        = Some (True, ''4ae1d168da09768beffa02abf1db5d9f'')"
    using 1 by (simp add: validateBlockHashNonce_def example_settings_def sample_block_def FormatUint_0)
  from block_hash_serialization [of sample_block 0 "''4ae1d168da09768beffa02abf1db5d9f''" "''0''"
          example_settings] 1 2
  show ?thesis
    by (simp add: sample_block_def rune_string_1)
qed

section \<open>Proof of work of the blocks on the chain\<close>

text \<open>
  The nonce search ignores the stored nonce; a no-op block mined on a chain that is
  not empty, and the block of an added shape, carry the nonce the search returned.
\<close>

lemma blkToString_Nonce: "blkToString (b\<lparr>Nonce := x\<rparr>) = blkToString b"
  by (simp add: blkToString_def)

lemma calculateHash_Nonce: "calculateHash (b\<lparr>Nonce := x\<rparr>) d = calculateHash b d"
  by (simp add: calculateHash_def blkToString_Nonce)

lemma generateNoOpBlock_mined:
  assumes "generateNoOpBlock st minerPubKey = Some (Inr (blk, st'))" and "blockChain st \<noteq> []"
  shows "\<exists>h n. calculateHash blk (PoWDifficultyNoOpBlock (settings st)) = Some (h, n)
           \<and> hasNZeros h (PoWDifficultyNoOpBlock (settings st))
           \<and> h = computeNonceSecretHash (blkToString blk) n
           \<and> Nonce blk = word_of_int (ParseUint n) \<and> Ops blk = [] \<and> NoOpBlock blk"
proof -
  let ?b = "\<lambda>ph nonce. \<lparr>PrevHash = ph, Nonce = nonce, Ops = [], NoOpBlock = True,
                 PubKeyMiner = pubKeyStr st, Index = 1,
                 MinerInks = MinerInks (last (blockChain st)),
                 CanvasInks = CanvasInks (last (blockChain st)),
                 CanvasOperations = CanvasOperations (last (blockChain st))\<rparr>"
  from assms obtain ph h n where
    b: "blk = ?b ph (word_of_int (ParseUint n))"
    and c: "calculateHash (?b ph 0) (PoWDifficultyNoOpBlock (settings st)) = Some (h, n)"
    by (auto simp: generateNoOpBlock_def Let_def
          split: option.splits sum.splits prod.splits if_splits)
  from c have c': "calculateHash blk (PoWDifficultyNoOpBlock (settings st)) = Some (h, n)"
    by (simp add: b calculateHash_def blkToString_def)
  from calculateHash_result [OF c'] c' b show ?thesis
    by auto
qed

lemma AddShape_mined:
  assumes "MinerRPC_AddShape f st args = Some (Inr (Inr reply, st'))"
  shows "\<exists>n. calculateHash (last (blockChain st')) (PoWDifficultyOpBlock (settings st))
               = Some (BlockHash reply, n)
           \<and> hasNZeros (BlockHash reply) (PoWDifficultyOpBlock (settings st))
           \<and> BlockHash reply = computeNonceSecretHash (blkToString (last (blockChain st'))) n
           \<and> Nonce (last (blockChain st')) = word_of_int (ParseUint n)
           \<and> Ops (last (blockChain st')) \<noteq> [] \<and> \<not> NoOpBlock (last (blockChain st'))"
proof -
  let ?b = "\<lambda>ph nonce ops. \<lparr>PrevHash = ph, Nonce = nonce, Ops = Ops (last (blockChain st)) @ [ops],
                 NoOpBlock = False,
                 PubKeyMiner = myKeyPairInString st, Index = int (length (blockChain st)) - 1 + 1,
                 MinerInks = MinerInks (last (blockChain st)),
                 CanvasInks = CanvasInks (last (blockChain st)),
                 CanvasOperations = CanvasOperations (last (blockChain st))\<rparr>"
  from assms obtain ph n operation where
    b: "last (blockChain st') = ?b ph (word_of_int (ParseUint n)) operation"
    and c: "calculateHash (?b ph 0 operation) (PoWDifficultyOpBlock (settings st))
              = Some (BlockHash reply, n)"
    by (auto simp: MinerRPC_AddShape_def Let_def ink_store_def ops_store_def
          split: option.splits sum.splits prod.splits if_splits)
  from c have c': "calculateHash (last (blockChain st')) (PoWDifficultyOpBlock (settings st))
                     = Some (BlockHash reply, n)"
    by (simp add: b calculateHash_def blkToString_def)
  from calculateHash_result [OF c'] c' b show ?thesis
    by auto
qed

text \<open>
  C1. The first block a miner appends to its empty chain comes from
  \<^verbatim>\<open>generateFirstBlock\<close> and gets nonce 0 without any search. With both difficulties
  at 1, genesis hash \<^verbatim>\<open>83218ac34c1834c26781fe4bde918ee4\<close> and key string
  \<^verbatim>\<open>miner12\<close>, that block has no operation and its hash under its nonce ends in
  \<^verbatim>\<open>f\<close>, so it has no trailing zero; \<^verbatim>\<open>validateBlockHashNonce\<close>, which a peer runs
  on the block, finds nonce 1 and rejects the stored nonce 0.
\<close>

theorem first_block_without_proof_of_work:
  "(case mineNoOpBlocks (start_state pow_settings ''miner12'') ''miner12'' of
      Some (Inr st') \<Rightarrow>
        length (blockChain st') = 1
        \<and> Ops (last (blockChain st')) = []
        \<and> Nonce (last (blockChain st')) = 0
        \<and> computeNonceSecretHash (blkToString (last (blockChain st')))
             (FormatUint (Nonce (last (blockChain st')))) = ''4ae1d168da09768beffa02abf1db5d9f''
        \<and> hasNZeros ''4ae1d168da09768beffa02abf1db5d9f''
             (PoWDifficultyNoOpBlock (settings st')) = False
        \<and> validateBlockHashNonce (settings st') (last (blockChain st'))
             = Some (False, ''8d3a54d0ad84a9cac470955e0cceab80'')
    | _ \<Rightarrow> False)"
  using sample_hash_nonce_0 sample_hash_nonce_1
  by (simp add: start_state_def pow_settings_def mineNoOpBlocks_def generateNoOpBlock_def
        generateFirstBlock_def Let_def blkToString_def convertOpToString_def rune_string_1
        FormatUint_0 hasNZeros_def HasSuffix_def Repeat_def validateBlockHashNonce_def
        calculateHash_def calculateHash_loop.simps FormatInt_0 FormatInt_1)

section \<open>GetShapes writes into the caller's slice\<close>

lemma GetShapes_write_eq:
  "GetShapes_write ops j s =
     (if ops = [] \<or> j + length ops \<le> length s
      then Inr (take j s @ map OpSig ops @ drop (j + length ops) s)
      else Inl IndexOutOfRange)"
proof (induction ops arbitrary: j s)
  case Nil
  then show ?case by simp
next
  case (Cons operation ops)
  show ?case
  proof (cases "j < length s")
    case True
    then have "take (Suc j) (s[j := OpSig operation]) = take j s @ [OpSig operation]"
      by (simp add: take_Suc_conv_app_nth)
    with True Cons.IH [of "Suc j" "s[j := OpSig operation]"] show ?thesis
      by auto
  next
    case False
    then show ?thesis by simp
  qed
qed

lemma GetShapes_write_0:
  "GetShapes_write ops 0 s =
     (if length ops \<le> length s then Inr (map OpSig ops @ drop (length ops) s)
      else Inl IndexOutOfRange)"
  by (simp add: GetShapes_write_eq)

lemma GetShapes_search_Inr:
  "GetShapes_search bc n h s = Inr (Inr s') \<Longrightarrow> n \<le> length bc \<Longrightarrow>
     \<exists>i. 0 < i \<and> i < n \<and> PrevHash (bc ! i) = h \<and> length (Ops (bc ! (i - 1))) \<le> length s
         \<and> s' = map OpSig (Ops (bc ! (i - 1))) @ drop (length (Ops (bc ! (i - 1)))) s"
proof (induction n)
  case 0
  then show ?case by simp
next
  case (Suc n)
  show ?case
  proof (cases "PrevHash (bc ! n) = h")
    case True
    with Suc.prems show ?thesis
      by (auto simp: GetShapes_write_0 split: if_splits sum.splits intro!: exI[of _ n])
  next
    case False
    with Suc obtain i where "0 < i \<and> i < n \<and> PrevHash (bc ! i) = h
         \<and> length (Ops (bc ! (i - 1))) \<le> length s
         \<and> s' = map OpSig (Ops (bc ! (i - 1))) @ drop (length (Ops (bc ! (i - 1)))) s"
      by auto
    then show ?thesis by (intro exI[of _ i]) auto
  qed
qed

lemma GetShapes_last_panic:
  assumes "blockChain st \<noteq> []"
    and "calculateHash (last (blockChain st))
          (if NoOpBlock (last (blockChain st)) then PoWDifficultyNoOpBlock (settings st)
           else PoWDifficultyOpBlock (settings st)) = Some (blockHash, n)"
    and "length shapeHashes < length (Ops (last (blockChain st)))"
  shows "MinerRPC_GetShapes st blockHash shapeHashes = Some (Inl IndexOutOfRange)"
  using assms by (simp add: MinerRPC_GetShapes_def Let_def GetShapes_write_0)

lemma GetShapes_returns_slice:
  assumes ok: "MinerRPC_GetShapes st blockHash shapeHashes = Some (Inr (Inr s'))"
  shows "\<exists>b \<in> set (blockChain st). length (Ops b) \<le> length shapeHashes
           \<and> s' = map OpSig (Ops b) @ drop (length (Ops b)) shapeHashes"
proof -
  from ok have ne: "blockChain st \<noteq> []"
    by (auto simp: MinerRPC_GetShapes_def)
  from ok ne obtain h n where
    h: "calculateHash (last (blockChain st))
          (if NoOpBlock (last (blockChain st)) then PoWDifficultyNoOpBlock (settings st)
           else PoWDifficultyOpBlock (settings st)) = Some (h, n)"
    by (auto simp: MinerRPC_GetShapes_def Let_def split: option.splits)
  show ?thesis
  proof (cases "h = blockHash")
    case True
    with ok ne h have "length (Ops (last (blockChain st))) \<le> length shapeHashes
      \<and> s' = map OpSig (Ops (last (blockChain st)))
               @ drop (length (Ops (last (blockChain st)))) shapeHashes"
      by (auto simp: MinerRPC_GetShapes_def Let_def GetShapes_write_0 split: if_splits)
    with ne show ?thesis by (intro bexI[of _ "last (blockChain st)"]) auto
  next
    case False
    with ok ne h have
      "GetShapes_search (blockChain st) (length (blockChain st)) blockHash shapeHashes
         = Inr (Inr s')"
      by (auto simp: MinerRPC_GetShapes_def Let_def split: if_splits)
    from GetShapes_search_Inr [OF this] obtain i where
      i: "0 < i" "i < length (blockChain st)"
         "length (Ops (blockChain st ! (i - 1))) \<le> length shapeHashes"
         "s' = map OpSig (Ops (blockChain st ! (i - 1)))
                @ drop (length (Ops (blockChain st ! (i - 1)))) shapeHashes"
      by auto
    then have "blockChain st ! (i - 1) \<in> set (blockChain st)" by simp
    with i show ?thesis by blast
  qed
qed

text \<open>
  C10. The write loop of \<^verbatim>\<open>GetShapes\<close> panics with an index out of range whenever
  the slice it is given is shorter than the list of operations; so does the handler
  when the requested hash is the hash of the last block and that block has more
  operations than the slice has elements. When the handler returns without error, the
  slice was at least as long as the operations of some block of the chain, whose
  signatures then fill its first elements, the length unchanged.
\<close>

theorem GetShapes_index_out_of_range:
  "(length shapeHashes < length ops \<longrightarrow> GetShapes_write ops 0 shapeHashes = Inl IndexOutOfRange)
   \<and> (blockChain st \<noteq> [] \<longrightarrow>
        calculateHash (last (blockChain st))
          (if NoOpBlock (last (blockChain st)) then PoWDifficultyNoOpBlock (settings st)
           else PoWDifficultyOpBlock (settings st)) = Some (blockHash, n) \<longrightarrow>
        length shapeHashes < length (Ops (last (blockChain st))) \<longrightarrow>
        MinerRPC_GetShapes st blockHash shapeHashes = Some (Inl IndexOutOfRange))
   \<and> (MinerRPC_GetShapes st blockHash shapeHashes = Some (Inr (Inr s')) \<longrightarrow>
        (\<exists>b \<in> set (blockChain st). length (Ops b) \<le> length shapeHashes
           \<and> s' = map OpSig (Ops b) @ drop (length (Ops b)) shapeHashes))"
  using GetShapes_last_panic [of st blockHash n shapeHashes]
    GetShapes_returns_slice [of st blockHash shapeHashes s']
  by (simp add: GetShapes_write_0)

theorem GetShapes_index_out_of_range_witness:
  "GetShapes_write (Ops op_block) 0 [] = Inl IndexOutOfRange
   \<and> MinerRPC_GetShapes ((start_state example_settings ''P'')\<lparr>blockChain := [op_block]\<rparr>)
        (computeNonceSecretHash (blkToString op_block) ''0'') [] = Some (Inl IndexOutOfRange)
   \<and> MinerRPC_GetShapes ((start_state example_settings ''P'')\<lparr>blockChain := [op_block]\<rparr>)
        (computeNonceSecretHash (blkToString op_block) ''0'') [''x'', ''y'']
        = Some (Inr (Inr [''sig'', ''y'']))
   \<and> (\<exists>b \<in> set [op_block]. length (Ops b) \<le> length [''x'', ''y'']
         \<and> [''sig'', ''y''] = map OpSig (Ops b) @ drop (length (Ops b)) [''x'', ''y''])"
proof -
  let ?st = "(start_state example_settings ''P'')\<lparr>blockChain := [op_block]\<rparr>"
  let ?h = "computeNonceSecretHash (blkToString op_block) ''0''"
  have c: "calculateHash (last (blockChain ?st))
          (if NoOpBlock (last (blockChain ?st)) then PoWDifficultyNoOpBlock (settings ?st)
           else PoWDifficultyOpBlock (settings ?st)) = Some (?h, ''0'')"
    by (simp add: start_state_def example_settings_def op_block_def calculateHash_difficulty_0)
  have ok: "MinerRPC_GetShapes ?st ?h [''x'', ''y''] = Some (Inr (Inr [''sig'', ''y'']))"
    using c by (simp add: MinerRPC_GetShapes_def Let_def start_state_def op_block_def)
  have l: "length ([] :: string list) < length (Ops op_block)"
    by (simp add: op_block_def)
  have l': "length ([] :: string list) < length (Ops (last (blockChain ?st)))"
    by (simp add: op_block_def start_state_def)
  have ne: "blockChain ?st \<noteq> []"
    by (simp add: start_state_def)
  from GetShapes_index_out_of_range [of "[]" "Ops op_block" ?st ?h "''0''"] l l' ne c
  have 1: "GetShapes_write (Ops op_block) 0 [] = Inl IndexOutOfRange"
    and 2: "MinerRPC_GetShapes ?st ?h [] = Some (Inl IndexOutOfRange)"
    by blast+
  from GetShapes_index_out_of_range [of "[''x'', ''y'']" "[]" ?st ?h "''0''" "[''sig'', ''y'']"] ok
  have 3: "\<exists>b \<in> set (blockChain ?st). length (Ops b) \<le> length [''x'', ''y'']
         \<and> [''sig'', ''y''] = map OpSig (Ops b) @ drop (length (Ops b)) [''x'', ''y'']"
    by blast
  from 1 2 3 ok show ?thesis
    by (simp add: start_state_def)
qed

section \<open>Adopting a received chain\<close>

lemma contains_iff: "contains miners miner \<longleftrightarrow> miner \<in> set miners"
  by (induction miners) auto

lemma minersInBlockChain_foldl:
  "set (foldl (\<lambda>miners blk. if \<not> contains miners (PubKeyMiner blk)
                                 then miners @ [PubKeyMiner blk] else miners) acc bc)
     = set acc \<union> PubKeyMiner ` set bc"
  by (induction bc arbitrary: acc) (auto simp: contains_iff)

lemma set_minersInBlockChain: "set (minersInBlockChain bc) = PubKeyMiner ` set bc"
  by (simp add: minersInBlockChain_def minersInBlockChain_foldl)

lemma validateSufficientInk_loop_iff:
  "validateSufficientInk_loop cfg bc miners
     \<longleftrightarrow> (\<forall>miner \<in> set miners. validateSufficientInkMiner cfg bc miner)"
  by (induction miners) auto

lemma validateSufficientInkAll_iff:
  "validateSufficientInkAll cfg bc \<longleftrightarrow>
     (\<forall>b \<in> set bc. fst (totalInkSpentAndMinedByMiner cfg bc (PubKeyMiner b))
                      \<le> snd (totalInkSpentAndMinedByMiner cfg bc (PubKeyMiner b)))"
  by (auto simp: validateSufficientInkAll_def validateSufficientInk_loop_iff
        set_minersInBlockChain validateSufficientInkMiner_def split: prod.splits)

lemma validateBlockHashNonce_hash:
  assumes "validateBlockHashNonce cfg b = Some (True, h)"
  shows "h = computeNonceSecretHash (blkToString b) (FormatUint (Nonce b))
         \<and> hasNZeros h (if NoOpBlock b then PoWDifficultyNoOpBlock cfg else PoWDifficultyOpBlock cfg)"
  using calculateHash_result [OF validateBlockHashNonce_True [OF assms]] by auto

lemma validateBlockChain_loop_True:
  "validateBlockChain_loop cfg hashVal bc = Some True \<Longrightarrow> i < length bc \<Longrightarrow>
     validateBlockHashNonce cfg (bc ! i)
       = Some (True, computeNonceSecretHash (blkToString (bc ! i)) (FormatUint (Nonce (bc ! i))))
     \<and> validateBlockOpSigs (bc ! i)
     \<and> (1 < Index (bc ! i) \<longrightarrow>
          PrevHash (bc ! i) =
            (if i = 0 then hashVal
             else computeNonceSecretHash (blkToString (bc ! (i - 1)))
                    (FormatUint (Nonce (bc ! (i - 1))))))"
proof (induction bc arbitrary: hashVal i)
  case Nil
  then show ?case by simp
next
  case (Cons b bc)
  from Cons.prems(1) obtain h where
    v: "validateBlockHashNonce cfg b = Some (True, h)" and s: "validateBlockOpSigs b"
    and l: "1 < Index b \<longrightarrow> hashVal = PrevHash b"
    and r: "validateBlockChain_loop cfg h bc = Some True"
    by (auto split: if_splits option.splits)
  from validateBlockHashNonce_hash [OF v]
  have h: "h = computeNonceSecretHash (blkToString b) (FormatUint (Nonce b))" by simp
  show ?case
  proof (cases i)
    case 0
    with v s l h show ?thesis by auto
  next
    case (Suc k)
    with Cons.prems have "k < length bc" by simp
    from Cons.IH [OF r this] Suc h show ?thesis
      by (cases k) auto
  qed
qed

text \<open>
  What \<^verbatim>\<open>SendBlockchain\<close> does. It returns unless a nonce search of the validation
  runs forever, which it can only do on a longer chain that passed the ink check. When
  it returns, the state is the old one with the chain replaced by the received chain
  if the received chain is strictly longer, \<^verbatim>\<open>validateSufficientInkAll\<close> holds and
  \<^verbatim>\<open>validateBlockChain\<close> returns true; in every other case the state is unchanged.
  The ink check says that every producer of a block of the received chain has mined at
  least as much ink over that chain as its blocks spend. The chain check implies, for
  every block, that the hash under its stored nonce has the zeros of its difficulty (by
  its no-op flag) and is the first such hash of the search, that its operation
  signatures are the MD5 of producer key and shape, and, only for a block of index
  above 1 that is not the first of the list, that its parent hash is the hash of the
  block before it.
\<close>

lemma SendBlockchain_outcome:
  "(MinerToMinerRPC_SendBlockchain st bc = None \<longleftrightarrow>
      (length (blockChain st) < length bc \<and> validateSufficientInkAll (settings st) bc
       \<and> validateBlockChain (settings st) bc = None))
   \<and> (MinerToMinerRPC_SendBlockchain st bc = Some st' \<longrightarrow>
        st' = (if length (blockChain st) < length bc
                  \<and> validateSufficientInkAll (settings st) bc
                  \<and> validateBlockChain (settings st) bc = Some True
               then st\<lparr>blockChain := bc\<rparr> else st))
   \<and> (validateSufficientInkAll (settings st) bc \<longleftrightarrow>
        (\<forall>b \<in> set bc. fst (totalInkSpentAndMinedByMiner (settings st) bc (PubKeyMiner b))
                         \<le> snd (totalInkSpentAndMinedByMiner (settings st) bc (PubKeyMiner b))))
   \<and> (validateBlockChain (settings st) bc = Some True \<longrightarrow>
        (\<forall>i < length bc.
           hasNZeros (computeNonceSecretHash (blkToString (bc ! i)) (FormatUint (Nonce (bc ! i))))
             (if NoOpBlock (bc ! i) then PoWDifficultyNoOpBlock (settings st)
              else PoWDifficultyOpBlock (settings st))
           \<and> validateBlockHashNonce (settings st) (bc ! i)
               = Some (True, computeNonceSecretHash (blkToString (bc ! i))
                               (FormatUint (Nonce (bc ! i))))
           \<and> validateBlockOpSigs (bc ! i)
           \<and> (1 < Index (bc ! i) \<and> 0 < i \<longrightarrow>
                PrevHash (bc ! i) =
                  computeNonceSecretHash (blkToString (bc ! (i - 1)))
                    (FormatUint (Nonce (bc ! (i - 1)))))))"
proof -
  have 1: "MinerToMinerRPC_SendBlockchain st bc = None \<longleftrightarrow>
      (length (blockChain st) < length bc \<and> validateSufficientInkAll (settings st) bc
       \<and> validateBlockChain (settings st) bc = None)"
    by (auto simp: MinerToMinerRPC_SendBlockchain_def isSentChainLonger_def split: option.splits)
  have 2: "MinerToMinerRPC_SendBlockchain st bc = Some st' \<longrightarrow>
        st' = (if length (blockChain st) < length bc
                  \<and> validateSufficientInkAll (settings st) bc
                  \<and> validateBlockChain (settings st) bc = Some True
               then st\<lparr>blockChain := bc\<rparr> else st)"
    by (auto simp: MinerToMinerRPC_SendBlockchain_def isSentChainLonger_def
          split: option.splits if_splits)
  have 4: "validateBlockChain (settings st) bc = Some True \<longrightarrow>
        (\<forall>i < length bc.
           hasNZeros (computeNonceSecretHash (blkToString (bc ! i)) (FormatUint (Nonce (bc ! i))))
             (if NoOpBlock (bc ! i) then PoWDifficultyNoOpBlock (settings st)
              else PoWDifficultyOpBlock (settings st))
           \<and> validateBlockHashNonce (settings st) (bc ! i)
               = Some (True, computeNonceSecretHash (blkToString (bc ! i))
                               (FormatUint (Nonce (bc ! i))))
           \<and> validateBlockOpSigs (bc ! i)
           \<and> (1 < Index (bc ! i) \<and> 0 < i \<longrightarrow>
                PrevHash (bc ! i) =
                  computeNonceSecretHash (blkToString (bc ! (i - 1)))
                    (FormatUint (Nonce (bc ! (i - 1))))))"
  proof (intro impI allI)
    fix i
    assume v: "validateBlockChain (settings st) bc = Some True" and i: "i < length bc"
    from v have "validateBlockChain_loop (settings st) [] bc = Some True"
      by (simp add: validateBlockChain_def)
    from validateBlockChain_loop_True [OF this i]
    have a: "validateBlockHashNonce (settings st) (bc ! i)
       = Some (True, computeNonceSecretHash (blkToString (bc ! i)) (FormatUint (Nonce (bc ! i))))"
      and b: "validateBlockOpSigs (bc ! i)"
      and c: "1 < Index (bc ! i) \<longrightarrow>
          PrevHash (bc ! i) =
            (if i = 0 then []
             else computeNonceSecretHash (blkToString (bc ! (i - 1)))
                    (FormatUint (Nonce (bc ! (i - 1)))))"
      by blast+
    from validateBlockHashNonce_hash [OF a] a b c
    show "hasNZeros (computeNonceSecretHash (blkToString (bc ! i)) (FormatUint (Nonce (bc ! i))))
             (if NoOpBlock (bc ! i) then PoWDifficultyNoOpBlock (settings st)
              else PoWDifficultyOpBlock (settings st))
           \<and> validateBlockHashNonce (settings st) (bc ! i)
               = Some (True, computeNonceSecretHash (blkToString (bc ! i))
                               (FormatUint (Nonce (bc ! i))))
           \<and> validateBlockOpSigs (bc ! i)
           \<and> (1 < Index (bc ! i) \<and> 0 < i \<longrightarrow>
                PrevHash (bc ! i) =
                  computeNonceSecretHash (blkToString (bc ! (i - 1)))
                    (FormatUint (Nonce (bc ! (i - 1)))))"
      by auto
  qed
  from 1 2 4 validateSufficientInkAll_iff [of "settings st" bc] show ?thesis
    by blast
qed


lemma peer_chain_valid:
  "validateSufficientInkAll example_settings peer_chain
   \<and> validateBlockChain example_settings peer_chain = Some True"
  by (simp add: validateSufficientInkAll_def minersInBlockChain_def peer_chain_def peer_block_def
        validateSufficientInkMiner_def totalInkSpentAndMinedByMiner_def costOfOperations_def
        example_settings_def validateBlockChain_def validateBlockHashNonce_def Let_def
        calculateHash_difficulty_0 FormatUint_0 validateBlockOpSigs_def)

lemma SendBlockchain_outcome_sample:
  "MinerToMinerRPC_SendBlockchain (start_state example_settings ''P'') peer_chain
     = Some ((start_state example_settings ''P'')\<lparr>blockChain := peer_chain\<rparr>)
   \<and> length (blockChain (start_state example_settings ''P'')) < length peer_chain
   \<and> validateSufficientInkAll example_settings peer_chain
   \<and> validateBlockChain example_settings peer_chain = Some True
   \<and> MinerToMinerRPC_SendBlockchain
        ((start_state example_settings ''P'')\<lparr>blockChain := peer_chain\<rparr>) peer_chain
       = Some ((start_state example_settings ''P'')\<lparr>blockChain := peer_chain\<rparr>)
   \<and> hasNZeros (computeNonceSecretHash (blkToString (peer_chain ! 1))
                  (FormatUint (Nonce (peer_chain ! 1)))) 0
   \<and> validateBlockOpSigs (peer_chain ! 1)"
proof -
  let ?st = "start_state example_settings ''P''"
  let ?st' = "?st\<lparr>blockChain := peer_chain\<rparr>"
  have cfg: "settings ?st = example_settings" "settings ?st' = example_settings"
    by (simp_all add: start_state_def)
  have len: "length (blockChain ?st) < length peer_chain"
    by (simp add: start_state_def peer_chain_def)
  have len': "\<not> length (blockChain ?st') < length peer_chain"
    by simp
  have r1: "MinerToMinerRPC_SendBlockchain ?st peer_chain \<noteq> None"
    using SendBlockchain_outcome [of ?st peer_chain ?st'] peer_chain_valid cfg
    by auto
  then obtain s where s: "MinerToMinerRPC_SendBlockchain ?st peer_chain = Some s"
    by auto
  with SendBlockchain_outcome [of ?st peer_chain s] peer_chain_valid cfg len
  have a: "MinerToMinerRPC_SendBlockchain ?st peer_chain = Some ?st'"
    by auto
  have r2: "MinerToMinerRPC_SendBlockchain ?st' peer_chain \<noteq> None"
    using SendBlockchain_outcome [of ?st' peer_chain ?st'] len'
    by auto
  then obtain s' where s': "MinerToMinerRPC_SendBlockchain ?st' peer_chain = Some s'"
    by auto
  with SendBlockchain_outcome [of ?st' peer_chain s'] len'
  have b: "MinerToMinerRPC_SendBlockchain ?st' peer_chain = Some ?st'"
    by auto
  have i: "(1::nat) < length peer_chain"
    by (simp add: peer_chain_def)
  with SendBlockchain_outcome [of ?st peer_chain ?st'] peer_chain_valid cfg
  have c: "hasNZeros (computeNonceSecretHash (blkToString (peer_chain ! 1))
                  (FormatUint (Nonce (peer_chain ! 1))))
             (if NoOpBlock (peer_chain ! 1) then PoWDifficultyNoOpBlock example_settings
              else PoWDifficultyOpBlock example_settings)
           \<and> validateBlockOpSigs (peer_chain ! 1)"
    by auto
  have d: "(if NoOpBlock (peer_chain ! 1) then PoWDifficultyNoOpBlock example_settings
              else PoWDifficultyOpBlock example_settings) = 0"
    by (simp add: example_settings_def)
  from a b c d len peer_chain_valid show ?thesis
    by simp
qed

lemma FormatUint_1: "FormatUint 1 = ''1''"
  by code_simp

lemma broken_chain_valid:
  "validateSufficientInkAll example_settings broken_chain
   \<and> validateBlockChain example_settings broken_chain = Some True"
  by (simp add: validateSufficientInkAll_def minersInBlockChain_def broken_chain_def peer_block_def
        validateSufficientInkMiner_def totalInkSpentAndMinedByMiner_def costOfOperations_def
        example_settings_def validateBlockChain_def validateBlockHashNonce_def Let_def
        calculateHash_difficulty_0 FormatUint_0 validateBlockOpSigs_def)

text \<open>
  C5. The chain check lets a broken parent link through. \<^verbatim>\<open>generateNoOpBlock\<close>
  gives every no-op block the index 1, and \<^verbatim>\<open>validateBlockChain\<close> compares the
  parent hash only for blocks of index above 1, although its comment lists
  \<^verbatim>\<open>Block points to a previous legal block\<close> first. The miner, holding one block,
  receives two no-op blocks of a peer, the second with the parent hash \<^verbatim>\<open>bogus\<close>,
  which is not the hash of the first: the received chain replaces the local one. In
  the other direction, a longer chain whose second block carries nonce 1, a nonce whose
  hash has the zeros that difficulty 0 asks for, is refused and the local chain stays,
  because the search returns nonce 0 first.
\<close>

theorem SendBlockchain_adopts_broken_parent_link:
  "length (blockChain mined_once) = 1
   \<and> MinerToMinerRPC_SendBlockchain mined_once broken_chain
       = Some (mined_once\<lparr>blockChain := broken_chain\<rparr>)
   \<and> PrevHash (broken_chain ! 1) = ''bogus''
   \<and> PrevHash (broken_chain ! 1)
       \<noteq> computeNonceSecretHash (blkToString (broken_chain ! 0))
            (FormatUint (Nonce (broken_chain ! 0)))
   \<and> Nonce (late_nonce_chain ! 1) = 1
   \<and> hasNZeros (computeNonceSecretHash (blkToString (late_nonce_chain ! 1))
                  (FormatUint (Nonce (late_nonce_chain ! 1))))
        (PoWDifficultyNoOpBlock example_settings)
   \<and> validateBlockChain example_settings late_nonce_chain = Some False
   \<and> MinerToMinerRPC_SendBlockchain mined_once late_nonce_chain = Some mined_once"
proof -
  have 1: "MinerToMinerRPC_SendBlockchain mined_once broken_chain
       = Some (mined_once\<lparr>blockChain := broken_chain\<rparr>)"
    using broken_chain_valid
    by (simp add: MinerToMinerRPC_SendBlockchain_def isSentChainLonger_def mined_once_facts
          broken_chain_def)
  have "length (PrevHash (broken_chain ! 1)) = 5"
    by (simp add: broken_chain_def peer_block_def)
  then have 2: "PrevHash (broken_chain ! 1)
       \<noteq> computeNonceSecretHash (blkToString (broken_chain ! 0))
            (FormatUint (Nonce (broken_chain ! 0)))"
    using length_computeNonceSecretHash
            [of "blkToString (broken_chain ! 0)" "FormatUint (Nonce (broken_chain ! 0))"]
    by auto
  have 3: "validateBlockChain example_settings late_nonce_chain = Some False"
    by (simp add: late_nonce_chain_def peer_block_def example_settings_def validateBlockChain_def
          validateBlockHashNonce_def Let_def calculateHash_difficulty_0 FormatUint_0 FormatUint_1
          validateBlockOpSigs_def)
  have 4: "validateSufficientInkAll example_settings late_nonce_chain"
    by (simp add: late_nonce_chain_def validateSufficientInkAll_def minersInBlockChain_def
        peer_block_def validateSufficientInkMiner_def totalInkSpentAndMinedByMiner_def
        costOfOperations_def example_settings_def)
  have 5: "MinerToMinerRPC_SendBlockchain mined_once late_nonce_chain = Some mined_once"
    using 3 4
    by (simp add: MinerToMinerRPC_SendBlockchain_def isSentChainLonger_def mined_once_facts
          late_nonce_chain_def)
  have 6: "PoWDifficultyNoOpBlock example_settings = 0"
    by (simp add: example_settings_def)
  from 1 2 3 5 6 show ?thesis
    by (simp add: mined_once_facts hasNZeros_0 broken_chain_def late_nonce_chain_def
          peer_block_def)
qed

section \<open>Ink accounts\<close>

lemma ink_invariant_new: "ink_invariant \<lparr>inkMined = r, inkSpent = 0, inkRemain = r\<rparr>"
  by (simp add: ink_invariant_def)

lemma ink_invariant_mined:
  assumes "ink_invariant a" and "unat (inkMined a) + unat r < 2 ^ 32"
  shows "ink_invariant (a\<lparr>inkMined := inkMined a + r, inkRemain := inkRemain a + r\<rparr>)"
proof -
  from assms(2) have "inkMined a \<le> inkMined a + r"
    by (simp add: no_olen_add_nat)
  with assms(1) show ?thesis
    by (auto simp: ink_invariant_def)
qed

lemma ink_invariant_added:
  "ink_invariant \<lparr>inkMined = m, inkSpent = (cur - r) + s, inkRemain = r\<rparr>
     \<longleftrightarrow> cur = m - s \<and> r \<le> m"
proof -
  have 1: "r = m - ((cur - r) + s) \<longleftrightarrow> cur = m - s"
    by (auto simp: algebra_simps)
  have 2: "cur = m - s \<Longrightarrow> (cur - r) + s = m - r"
    by simp
  show ?thesis
    using 1 2 by (auto simp: ink_invariant_def word_sub_le_iff)
qed

lemma mining_accounts:
  assumes m: "mineNoOpBlocks st pk = Some (Inr st')" and ne: "blockChain st \<noteq> []"
  shows "(\<forall>k. k \<noteq> pk \<longrightarrow>
         ink_lookup st' (MinerInks (last (blockChain st'))) k
           = ink_lookup st (MinerInks (last (blockChain st))) k)
      \<and> (case ink_lookup st (MinerInks (last (blockChain st))) pk of
            None \<Rightarrow>
              ink_lookup st' (MinerInks (last (blockChain st'))) pk
                = Some \<lparr>inkMined = InkPerNoOpBlock (settings st), inkSpent = 0,
                         inkRemain = InkPerNoOpBlock (settings st)\<rparr>
          | Some a \<Rightarrow>
              ink_lookup st' (MinerInks (last (blockChain st'))) pk
                = Some (a\<lparr>inkMined := inkMined a + InkPerNoOpBlock (settings st),
                           inkRemain := inkRemain a + InkPerNoOpBlock (settings st)\<rparr>)
              \<and> (ink_invariant a
                    \<and> unat (inkMined a) + unat (InkPerNoOpBlock (settings st)) < 2 ^ 32 \<longrightarrow>
                  ink_invariant (a\<lparr>inkMined := inkMined a + InkPerNoOpBlock (settings st),
                                    inkRemain := inkRemain a + InkPerNoOpBlock (settings st)\<rparr>)))"
proof -
  from mineNoOpBlocks_appends [OF m ne] obtain blk a where
    chain: "blockChain st' = blockChain st @ [blk]"
    and refs: "MinerInks blk = MinerInks (last (blockChain st))"
    and a: "MinerInks (last (blockChain st)) = Some a"
    and maps: "inkMaps st' = (inkMaps st)(a := (inkMaps st a)(pk \<mapsto>
                (case inkMaps st a pk of
                   None \<Rightarrow> \<lparr>inkMined = InkPerNoOpBlock (settings st), inkSpent = 0,
                             inkRemain = InkPerNoOpBlock (settings st)\<rparr>
                 | Some acc \<Rightarrow> acc\<lparr>inkMined := inkMined acc + InkPerNoOpBlock (settings st),
                                    inkRemain := inkRemain acc + InkPerNoOpBlock (settings st)\<rparr>)))"
    by auto
  from chain have l: "last (blockChain st') = blk" by simp
  show ?thesis
    by (auto simp: ink_lookup_def l refs a maps ink_invariant_mined split: option.splits)
qed

lemma first_accounts:
  assumes m: "mineNoOpBlocks st pk = Some (Inr st')" and e: "blockChain st = []"
  shows "\<forall>k. ink_lookup st' (MinerInks (last (blockChain st'))) k
               = (if k = pubKeyStr st
                  then Some \<lparr>inkMined = InkPerNoOpBlock (settings st), inkSpent = 0,
                              inkRemain = InkPerNoOpBlock (settings st)\<rparr>
                  else None)"
proof -
  from mineNoOpBlocks_first [OF m e] obtain blk where
    "blockChain st' = [blk]" "MinerInks blk = Some (nextRef st)"
    "inkMaps st' (nextRef st) =
               [pubKeyStr st \<mapsto> \<lparr>inkMined = InkPerNoOpBlock (settings st), inkSpent = 0,
                                   inkRemain = InkPerNoOpBlock (settings st)\<rparr>]"
    by auto
  then show ?thesis
    by (auto simp: ink_lookup_def)
qed

lemma adding_accounts:
  assumes ok: "MinerRPC_AddShape f st args = Some (Inr (Inr reply, st'))"
  shows "(\<forall>k. k \<noteq> myKeyPairInString st \<longrightarrow>
           ink_lookup st' (MinerInks (last (blockChain st'))) k
             = ink_lookup st (MinerInks (last (blockChain st))) k)
        \<and> ink_lookup st' (MinerInks (last (blockChain st'))) (myKeyPairInString st)
            = Some \<lparr>inkMined = snd (totalInkSpentAndMinedByMiner (settings st) (blockChain st)
                                       (pubKeyStr st)),
                     inkSpent = (currInkMined st - InkRemaining reply)
                        + fst (totalInkSpentAndMinedByMiner (settings st) (blockChain st)
                                 (pubKeyStr st)),
                     inkRemain = InkRemaining reply\<rparr>"
proof -
  from AddShape_appends [OF ok] obtain blk a where
    chain: "blockChain st' = blockChain st @ [blk]"
    and refs: "MinerInks blk = MinerInks (last (blockChain st))"
    and a: "MinerInks (last (blockChain st)) = Some a"
    and maps: "inkMaps st' = (inkMaps st)(a := (inkMaps st a)(myKeyPairInString st \<mapsto>
                \<lparr>inkMined = snd (totalInkSpentAndMinedByMiner (settings st) (blockChain st)
                                   (pubKeyStr st)),
                 inkSpent = (currInkMined st - InkRemaining reply)
                    + fst (totalInkSpentAndMinedByMiner (settings st) (blockChain st) (pubKeyStr st)),
                 inkRemain = InkRemaining reply\<rparr>))"
    by auto
  from chain have l: "last (blockChain st') = blk" by simp
  show ?thesis
    by (auto simp: ink_lookup_def l refs a maps)
qed

text \<open>
  What the two operations write. Mining a no-op block on a chain that is not empty
  adds the reward to mined and to remaining of the miner's account in the ink map of
  the last block (a miner without account gets mined and remaining at the reward, spent
  0) and leaves the other accounts of that map as they are; so remaining = mined -
  spent is kept modulo 2^32, and spent \<le> mined is kept when mined does not wrap. The
  first block has the one account (reward, 0, reward). A successful add-shape leaves
  the other accounts as they are and sets the account under the miner's key-pair string
  to: mined, the total mined over the chain by the package-level public key; spent, the
  cost plus the total spent over the chain by that key; remaining, \<^verbatim>\<open>currInkMined\<close>
  less the cost. That account satisfies the invariant only when \<^verbatim>\<open>currInkMined\<close>
  happens to be the total mined less the total spent.
\<close>

lemma accounts_written_by_mining_and_adding:
  "(mineNoOpBlocks st pk = Some (Inr st') \<longrightarrow> blockChain st \<noteq> [] \<longrightarrow>
      (\<forall>k. k \<noteq> pk \<longrightarrow>
         ink_lookup st' (MinerInks (last (blockChain st'))) k
           = ink_lookup st (MinerInks (last (blockChain st))) k)
      \<and> (case ink_lookup st (MinerInks (last (blockChain st))) pk of
            None \<Rightarrow>
              ink_lookup st' (MinerInks (last (blockChain st'))) pk
                = Some \<lparr>inkMined = InkPerNoOpBlock (settings st), inkSpent = 0,
                         inkRemain = InkPerNoOpBlock (settings st)\<rparr>
          | Some a \<Rightarrow>
              ink_lookup st' (MinerInks (last (blockChain st'))) pk
                = Some (a\<lparr>inkMined := inkMined a + InkPerNoOpBlock (settings st),
                           inkRemain := inkRemain a + InkPerNoOpBlock (settings st)\<rparr>)
              \<and> (ink_invariant a
                    \<and> unat (inkMined a) + unat (InkPerNoOpBlock (settings st)) < 2 ^ 32 \<longrightarrow>
                  ink_invariant (a\<lparr>inkMined := inkMined a + InkPerNoOpBlock (settings st),
                                    inkRemain := inkRemain a + InkPerNoOpBlock (settings st)\<rparr>))))
   \<and> (mineNoOpBlocks st pk = Some (Inr st') \<longrightarrow> blockChain st = [] \<longrightarrow>
        (\<forall>k. ink_lookup st' (MinerInks (last (blockChain st'))) k
               = (if k = pubKeyStr st
                  then Some \<lparr>inkMined = InkPerNoOpBlock (settings st), inkSpent = 0,
                              inkRemain = InkPerNoOpBlock (settings st)\<rparr>
                  else None)))
   \<and> ink_invariant \<lparr>inkMined = InkPerNoOpBlock (settings st), inkSpent = 0,
                     inkRemain = InkPerNoOpBlock (settings st)\<rparr>
   \<and> (MinerRPC_AddShape f st args = Some (Inr (Inr reply, st')) \<longrightarrow>
        (\<forall>k. k \<noteq> myKeyPairInString st \<longrightarrow>
           ink_lookup st' (MinerInks (last (blockChain st'))) k
             = ink_lookup st (MinerInks (last (blockChain st))) k)
        \<and> ink_lookup st' (MinerInks (last (blockChain st'))) (myKeyPairInString st)
            = Some \<lparr>inkMined = snd (totalInkSpentAndMinedByMiner (settings st) (blockChain st)
                                       (pubKeyStr st)),
                     inkSpent = (currInkMined st - InkRemaining reply)
                        + fst (totalInkSpentAndMinedByMiner (settings st) (blockChain st)
                                 (pubKeyStr st)),
                     inkRemain = InkRemaining reply\<rparr>
        \<and> (ink_invariant
              \<lparr>inkMined = snd (totalInkSpentAndMinedByMiner (settings st) (blockChain st)
                                 (pubKeyStr st)),
               inkSpent = (currInkMined st - InkRemaining reply)
                  + fst (totalInkSpentAndMinedByMiner (settings st) (blockChain st) (pubKeyStr st)),
               inkRemain = InkRemaining reply\<rparr>
            \<longleftrightarrow> currInkMined st
                  = snd (totalInkSpentAndMinedByMiner (settings st) (blockChain st) (pubKeyStr st))
                    - fst (totalInkSpentAndMinedByMiner (settings st) (blockChain st) (pubKeyStr st))
                \<and> InkRemaining reply
                    \<le> snd (totalInkSpentAndMinedByMiner (settings st) (blockChain st)
                             (pubKeyStr st))))"
  using mining_accounts [of st pk st'] first_accounts [of st pk st']
    adding_accounts [of f st args reply st']
    ink_invariant_new [of "InkPerNoOpBlock (settings st)"]
    ink_invariant_added [of "snd (totalInkSpentAndMinedByMiner (settings st) (blockChain st)
                                 (pubKeyStr st))" "currInkMined st" "InkRemaining reply"
       "fst (totalInkSpentAndMinedByMiner (settings st) (blockChain st) (pubKeyStr st))"]
  by blast

lemma accounts_written_samples:
  "mineNoOpBlocks (start_state example_settings ''P'') ''P'' = Some (Inr mined_first)
   \<and> blockChain (start_state example_settings ''P'') = []
   \<and> ink_lookup mined_first (MinerInks (last (blockChain mined_first))) ''P''
       = Some \<lparr>inkMined = 30, inkSpent = 0, inkRemain = 30\<rparr>
   \<and> ink_invariant \<lparr>inkMined = 30, inkSpent = 0, inkRemain = 30\<rparr>
   \<and> mineNoOpBlocks mined_once ''P'' = Some (Inr mined_again)
   \<and> blockChain mined_once \<noteq> []
   \<and> ink_lookup mined_again (MinerInks (last (blockChain mined_again))) ''P''
       = Some \<lparr>inkMined = 60, inkSpent = 0, inkRemain = 60\<rparr>
   \<and> ink_invariant \<lparr>inkMined = 60, inkSpent = 0, inkRemain = 60\<rparr>
   \<and> ink_lookup mined_again (MinerInks (last (blockChain mined_again))) ''Z''
       = ink_lookup mined_once (MinerInks (last (blockChain mined_once))) ''Z''
   \<and> MinerRPC_AddShape (charge 21) mined_once triangle_args
       = Some (Inr (Inr (fst shape_added), snd shape_added))
   \<and> ink_lookup (snd shape_added) (MinerInks (last (blockChain (snd shape_added)))) ''K''
       = Some \<lparr>inkMined = 30, inkSpent = 21, inkRemain = 9\<rparr>
   \<and> ink_invariant \<lparr>inkMined = 30, inkSpent = 21, inkRemain = 9\<rparr>
   \<and> ink_lookup (snd shape_added) (MinerInks (last (blockChain (snd shape_added)))) ''P''
       = ink_lookup mined_once (MinerInks (last (blockChain mined_once))) ''P''"
proof -
  have e: "blockChain (start_state example_settings ''P'') = []"
    "pubKeyStr (start_state example_settings ''P'') = ''P''"
    "InkPerNoOpBlock (settings (start_state example_settings ''P'')) = 30"
    by (simp_all add: start_state_def example_settings_def)
  from accounts_written_by_mining_and_adding
         [of "start_state example_settings ''P''" "''P''" mined_first]
       mined_first_run e
  have 1: "ink_lookup mined_first (MinerInks (last (blockChain mined_first))) ''P''
       = Some \<lparr>inkMined = 30, inkSpent = 0, inkRemain = 30\<rparr>"
    and 2: "ink_invariant \<lparr>inkMined = 30, inkSpent = 0, inkRemain = 30\<rparr>"
    by auto
  have r: "InkPerNoOpBlock (settings mined_once) = 30"
    by (simp add: mined_once_facts example_settings_def)
  have u: "unat (30 :: uint32) + unat (30 :: uint32) < 2 ^ 32"
    by simp
  from accounts_written_by_mining_and_adding [of mined_once "''P''" mined_again]
       mined_again_run mined_once_facts r
  have 3: "ink_lookup mined_again (MinerInks (last (blockChain mined_again))) ''P''
       = Some \<lparr>inkMined = 60, inkSpent = 0, inkRemain = 60\<rparr>"
    and 4: "ink_invariant \<lparr>inkMined = 30, inkSpent = 0, inkRemain = 30\<rparr>
             \<and> unat (30 :: uint32) + unat (30 :: uint32) < 2 ^ 32
            \<longrightarrow> ink_invariant \<lparr>inkMined = 60, inkSpent = 0, inkRemain = 60\<rparr>"
    and 5: "ink_lookup mined_again (MinerInks (last (blockChain mined_again))) ''Z''
       = ink_lookup mined_once (MinerInks (last (blockChain mined_once))) ''Z''"
    by auto
  from 2 4 u have 6: "ink_invariant \<lparr>inkMined = 60, inkSpent = 0, inkRemain = 60\<rparr>"
    by blast
  from accounts_written_by_mining_and_adding
         [of mined_once _ "snd shape_added" "charge 21" triangle_args "fst shape_added"]
       shape_added_run mined_once_facts shape_added_facts
  have 7: "ink_lookup (snd shape_added) (MinerInks (last (blockChain (snd shape_added)))) ''K''
       = Some \<lparr>inkMined = 30, inkSpent = 21, inkRemain = 9\<rparr>"
    and 8: "ink_invariant \<lparr>inkMined = 30, inkSpent = 21, inkRemain = 9\<rparr>"
    and 9: "ink_lookup (snd shape_added) (MinerInks (last (blockChain (snd shape_added)))) ''P''
       = ink_lookup mined_once (MinerInks (last (blockChain mined_once))) ''P''"
    by auto
  from 1 2 3 5 6 7 8 9 mined_first_run mined_again_run shape_added_run e mined_once_facts
  show ?thesis by simp
qed

text \<open>
  C2. The account that add-shape writes breaks the invariant. The package-level
  \<^verbatim>\<open>myPrivKey\<close> is never assigned (\<^verbatim>\<open>main\<close> declares a local variable of that
  name), so its key string is \<^verbatim>\<open><nil><nil>\<close>, while the main loop mines under the
  key string of its local key, here \<open>P\<close>. After two rounds of the main loop at 30 ink
  a block, \<^verbatim>\<open>currInkMined\<close> is 30; a shape costing 21 ink then leaves the account
  with mined 60, spent 21 and remaining 9, and 9 is not 60 - 21. \<^verbatim>\<open>AddShape\<close> takes
  remaining from \<^verbatim>\<open>minerInkRemain\<close>, which returns the cached mined ink, and mined and
  spent from a walk over the chain. In a second run, with one key string for both, a
  miner with 30 ink accepts two shapes of 21 ink one after the other: each reply gives 9
  ink remaining, the last block holds both shapes, and the account shows spent 21.
\<close>

theorem add_shape_account_breaks_ink_invariant:
  "(case main_round (start_state example_settings ''<nil><nil>'') ''P'' of
      Some (Inr s1) \<Rightarrow>
        (case main_round s1 ''P'' of
           Some (Inr s2) \<Rightarrow>
             (case MinerRPC_AddShape (charge 21) s2 triangle_args of
                Some (Inr (Inr reply, s3)) \<Rightarrow>
                  currInkMined s2 = 30 \<and> InkRemaining reply = 9
                  \<and> ink_lookup s3 (MinerInks (last (blockChain s3))) (myKeyPairInString s3)
                      = Some \<lparr>inkMined = 60, inkSpent = 21, inkRemain = 9\<rparr>
                  \<and> ink_invariant \<lparr>inkMined = 60, inkSpent = 21, inkRemain = 9\<rparr> = False
              | _ \<Rightarrow> False)
         | _ \<Rightarrow> False)
    | _ \<Rightarrow> False)
   \<and> (case MinerRPC_AddShape (charge 21) mined_once triangle_args of
        Some (Inr (Inr reply1, t1)) \<Rightarrow>
          (case MinerRPC_AddShape (charge 21) t1 triangle_args of
             Some (Inr (Inr reply2, t2)) \<Rightarrow>
               currInkMined mined_once = 30
               \<and> InkRemaining reply1 = 9 \<and> InkRemaining reply2 = 9
               \<and> length (Ops (last (blockChain t2))) = 2
               \<and> ink_lookup t2 (MinerInks (last (blockChain t2))) (myKeyPairInString t2)
                   = Some \<lparr>inkMined = 30, inkSpent = 21, inkRemain = 9\<rparr>
           | _ \<Rightarrow> False)
      | _ \<Rightarrow> False)"
  by (simp add: mined_once_def run_defs ink_invariant_def)

section \<open>Earlier blocks when a block is appended\<close>

text \<open>
  C6, as the specification states it, fails: the first block's ink map holds mined 30
  for the miner after the first round and mined 60 after the second, the block itself
  being the same record.
\<close>

theorem earlier_block_ink_map_changes:
  "(case main_round (start_state example_settings ''P'') ''P'' of
      Some (Inr s1) \<Rightarrow>
        (case main_round s1 ''P'' of
           Some (Inr s2) \<Rightarrow>
             length (blockChain s1) = 1 \<and> length (blockChain s2) = 2
             \<and> blockChain s2 ! 0 = blockChain s1 ! 0
             \<and> ink_lookup s1 (MinerInks (blockChain s1 ! 0)) ''P''
                 = Some \<lparr>inkMined = 30, inkSpent = 0, inkRemain = 30\<rparr>
             \<and> ink_lookup s2 (MinerInks (blockChain s2 ! 0)) ''P''
                 = Some \<lparr>inkMined = 60, inkSpent = 0, inkRemain = 60\<rparr>
         | _ \<Rightarrow> False)
    | _ \<Rightarrow> False)"
  by (simp add: run_defs)

lemma mining_frame:
  assumes m: "mineNoOpBlocks st pk = Some (Inr st')"
  shows "length (blockChain st') = Suc (length (blockChain st))
      \<and> take (length (blockChain st)) (blockChain st') = blockChain st
      \<and> (blockChain st \<noteq> [] \<longrightarrow>
           MinerInks (last (blockChain st')) = MinerInks (last (blockChain st))
           \<and> CanvasInks (last (blockChain st')) = CanvasInks (last (blockChain st))
           \<and> CanvasOperations (last (blockChain st')) = CanvasOperations (last (blockChain st))
           \<and> canvasMaps st' = canvasMaps st \<and> opMaps st' = opMaps st
           \<and> (\<forall>a k. \<not> (MinerInks (last (blockChain st)) = Some a \<and> k = pk)
                  \<longrightarrow> inkMaps st' a k = inkMaps st a k))"
proof (cases "blockChain st = []")
  case True
  from mineNoOpBlocks_first [OF m True] True show ?thesis by auto
next
  case False
  from mineNoOpBlocks_appends [OF m False] obtain blk where
    chain: "blockChain st' = blockChain st @ [blk]"
    and refs: "MinerInks blk = MinerInks (last (blockChain st))"
      "CanvasInks blk = CanvasInks (last (blockChain st))"
      "CanvasOperations blk = CanvasOperations (last (blockChain st))"
    and maps: "canvasMaps st' = canvasMaps st" "opMaps st' = opMaps st"
    and ink: "\<forall>a. MinerInks (last (blockChain st)) = Some a \<longrightarrow>
               inkMaps st' = (inkMaps st)(a := (inkMaps st a)(pk \<mapsto>
                (case inkMaps st a pk of
                   None \<Rightarrow> \<lparr>inkMined = InkPerNoOpBlock (settings st), inkSpent = 0,
                             inkRemain = InkPerNoOpBlock (settings st)\<rparr>
                 | Some acc \<Rightarrow> acc\<lparr>inkMined := inkMined acc + InkPerNoOpBlock (settings st),
                                    inkRemain := inkRemain acc + InkPerNoOpBlock (settings st)\<rparr>)))"
    and ne: "MinerInks (last (blockChain st)) \<noteq> None"
    by auto
  from ne obtain a0 where a0: "MinerInks (last (blockChain st)) = Some a0" by auto
  with ink have "\<forall>a k. \<not> (a = a0 \<and> k = pk) \<longrightarrow> inkMaps st' a k = inkMaps st a k"
    by auto
  with a0 chain refs maps show ?thesis by auto
qed

lemma adding_frame:
  assumes ok: "MinerRPC_AddShape f st args = Some (Inr (Inr reply, st'))"
  shows "length (blockChain st') = Suc (length (blockChain st))
      \<and> take (length (blockChain st)) (blockChain st') = blockChain st
      \<and> MinerInks (last (blockChain st')) = MinerInks (last (blockChain st))
      \<and> CanvasInks (last (blockChain st')) = CanvasInks (last (blockChain st))
      \<and> CanvasOperations (last (blockChain st')) = CanvasOperations (last (blockChain st))
      \<and> (\<forall>a k. \<not> (MinerInks (last (blockChain st)) = Some a \<and> k = myKeyPairInString st)
             \<longrightarrow> inkMaps st' a k = inkMaps st a k)
      \<and> (\<forall>a k. \<not> (CanvasOperations (last (blockChain st)) = Some a \<and> k = myKeyPairInString st)
             \<longrightarrow> opMaps st' a k = opMaps st a k)
      \<and> (\<forall>a. CanvasInks (last (blockChain st)) \<noteq> Some a
             \<longrightarrow> canvasMaps st' a = canvasMaps st a)"
proof -
  from AddShape_appends [OF ok] obtain blk where
    chain: "blockChain st' = blockChain st @ [blk]"
    and refs: "MinerInks blk = MinerInks (last (blockChain st))"
      "CanvasInks blk = CanvasInks (last (blockChain st))"
      "CanvasOperations blk = CanvasOperations (last (blockChain st))"
    and ink: "\<forall>a. MinerInks (last (blockChain st)) = Some a \<longrightarrow>
              inkMaps st' = (inkMaps st)(a := (inkMaps st a)(myKeyPairInString st \<mapsto>
                \<lparr>inkMined = snd (totalInkSpentAndMinedByMiner (settings st) (blockChain st)
                                   (pubKeyStr st)),
                 inkSpent = (currInkMined st - InkRemaining reply)
                    + fst (totalInkSpentAndMinedByMiner (settings st) (blockChain st) (pubKeyStr st)),
                 inkRemain = InkRemaining reply\<rparr>))"
    and ne: "MinerInks (last (blockChain st)) \<noteq> None"
    and ops: "\<forall>a' k. \<not> (CanvasOperations (last (blockChain st)) = Some a' \<and> k = myKeyPairInString st)
                 \<longrightarrow> opMaps st' a' k = opMaps st a' k"
    and canvas: "\<forall>a'. CanvasInks (last (blockChain st)) \<noteq> Some a'
                 \<longrightarrow> canvasMaps st' a' = canvasMaps st a'"
    by auto
  from ne obtain a0 where a0: "MinerInks (last (blockChain st)) = Some a0" by auto
  with ink have "\<forall>a k. \<not> (a = a0 \<and> k = myKeyPairInString st) \<longrightarrow> inkMaps st' a k = inkMaps st a k"
    by auto
  with a0 chain refs ops canvas show ?thesis by auto
qed

text \<open>
  C6, amended. Appending a block (mining a no-op block, adding a shape) leaves the
  record of every earlier block as it was: parent hash, nonce, operations, no-op flag,
  producer key, index and the references to its three maps. The appended block refers
  to the same three map objects as the block before it, and the append writes into
  those objects only: the miner's entry of the ink map, and for an added shape also the
  miner's entry of the canvas-operations map and what \<^verbatim>\<open>AddShapeToMap\<close> writes into
  the canvas map. Entries under other keys, and map objects the last block does not
  refer to, are unchanged.
\<close>

theorem appending_keeps_block_records_and_other_entries:
  "(mineNoOpBlocks st pk = Some (Inr st') \<longrightarrow>
      length (blockChain st') = Suc (length (blockChain st))
      \<and> take (length (blockChain st)) (blockChain st') = blockChain st
      \<and> (blockChain st \<noteq> [] \<longrightarrow>
           MinerInks (last (blockChain st')) = MinerInks (last (blockChain st))
           \<and> CanvasInks (last (blockChain st')) = CanvasInks (last (blockChain st))
           \<and> CanvasOperations (last (blockChain st')) = CanvasOperations (last (blockChain st))
           \<and> canvasMaps st' = canvasMaps st \<and> opMaps st' = opMaps st
           \<and> (\<forall>a k. \<not> (MinerInks (last (blockChain st)) = Some a \<and> k = pk)
                  \<longrightarrow> inkMaps st' a k = inkMaps st a k)))
   \<and> (MinerRPC_AddShape f st args = Some (Inr (Inr reply, st')) \<longrightarrow>
      length (blockChain st') = Suc (length (blockChain st))
      \<and> take (length (blockChain st)) (blockChain st') = blockChain st
      \<and> MinerInks (last (blockChain st')) = MinerInks (last (blockChain st))
      \<and> CanvasInks (last (blockChain st')) = CanvasInks (last (blockChain st))
      \<and> CanvasOperations (last (blockChain st')) = CanvasOperations (last (blockChain st))
      \<and> (\<forall>a k. \<not> (MinerInks (last (blockChain st)) = Some a \<and> k = myKeyPairInString st)
             \<longrightarrow> inkMaps st' a k = inkMaps st a k)
      \<and> (\<forall>a k. \<not> (CanvasOperations (last (blockChain st)) = Some a \<and> k = myKeyPairInString st)
             \<longrightarrow> opMaps st' a k = opMaps st a k)
      \<and> (\<forall>a. CanvasInks (last (blockChain st)) \<noteq> Some a
             \<longrightarrow> canvasMaps st' a = canvasMaps st a))"
  using mining_frame [of st pk st'] adding_frame [of f st args reply st']
  by blast

theorem appending_keeps_block_records_and_other_entries_witness:
  "mineNoOpBlocks mined_once ''P'' = Some (Inr mined_again)
   \<and> blockChain mined_once \<noteq> []
   \<and> length (blockChain mined_again) = 2
   \<and> take 1 (blockChain mined_again) = blockChain mined_once
   \<and> MinerInks (last (blockChain mined_again)) = Some 0
   \<and> MinerInks (last (blockChain mined_once)) = Some 0
   \<and> inkMaps mined_again 0 ''Z'' = inkMaps mined_once 0 ''Z''
   \<and> inkMaps mined_again 7 ''P'' = inkMaps mined_once 7 ''P''
   \<and> MinerRPC_AddShape (charge 21) mined_once triangle_args
       = Some (Inr (Inr (fst shape_added), snd shape_added))
   \<and> take 1 (blockChain (snd shape_added)) = blockChain mined_once
   \<and> CanvasOperations (last (blockChain (snd shape_added))) = Some 2
   \<and> inkMaps (snd shape_added) 0 ''P'' = inkMaps mined_once 0 ''P''
   \<and> opMaps (snd shape_added) 2 ''P'' = opMaps mined_once 2 ''P''
   \<and> canvasMaps (snd shape_added) 0 = canvasMaps mined_once 0"
proof -
  from appending_keeps_block_records_and_other_entries [of mined_once "''P''" mined_again]
       mined_again_run mined_once_facts
  have 1: "length (blockChain mined_again) = 2"
    and 2: "take 1 (blockChain mined_again) = blockChain mined_once"
    and 3: "MinerInks (last (blockChain mined_again)) = Some 0"
    and 4: "\<forall>a k. \<not> (Some (0::nat) = Some a \<and> k = ''P'')
                  \<longrightarrow> inkMaps mined_again a k = inkMaps mined_once a k"
    by auto
  from 4 have 5: "inkMaps mined_again 0 ''Z'' = inkMaps mined_once 0 ''Z''"
    and 6: "inkMaps mined_again 7 ''P'' = inkMaps mined_once 7 ''P''"
    by auto
  from appending_keeps_block_records_and_other_entries
         [of mined_once _ "snd shape_added" "charge 21" triangle_args "fst shape_added"]
       shape_added_run mined_once_facts
  have 7: "take 1 (blockChain (snd shape_added)) = blockChain mined_once"
    and 8: "CanvasOperations (last (blockChain (snd shape_added))) = Some 2"
    and 9: "\<forall>a k. \<not> (Some (0::nat) = Some a \<and> k = ''K'')
             \<longrightarrow> inkMaps (snd shape_added) a k = inkMaps mined_once a k"
    and 10: "\<forall>a k. \<not> (Some (2::nat) = Some a \<and> k = ''K'')
             \<longrightarrow> opMaps (snd shape_added) a k = opMaps mined_once a k"
    and 11: "\<forall>a. Some (1::nat) \<noteq> Some a
             \<longrightarrow> canvasMaps (snd shape_added) a = canvasMaps mined_once a"
    by auto
  from 9 have 12: "inkMaps (snd shape_added) 0 ''P'' = inkMaps mined_once 0 ''P''"
    by auto
  from 10 have 13: "opMaps (snd shape_added) 2 ''P'' = opMaps mined_once 2 ''P''"
    by auto
  from 11 have 14: "canvasMaps (snd shape_added) 0 = canvasMaps mined_once 0"
    by auto
  from 1 2 3 5 6 7 8 12 13 14 mined_again_run shape_added_run mined_once_facts
  show ?thesis by simp
qed

end
